theory Spec2Isabelle
  imports Main
begin

section \<open>Values shared by the whole server package\<close>

subsection \<open>Errors\<close>

text \<open>
  A Go \<^verbatim>\<open>error\<close> is either the sentinel \<^verbatim>\<open>storage.ErrNotFound\<close> (compared by identity
  in the source), a value made by \<^verbatim>\<open>errors.New\<close>, or a value made by \<^verbatim>\<open>fmt.Errorf\<close>.
  A formatted error keeps its format string and its arguments, so that no rendering
  of \<^verbatim>\<open>%q\<close> or \<^verbatim>\<open>%v\<close> has to be invented. A nil error is \<open>None\<close> of \<open>error option\<close>.
\<close>

datatype error =
    ErrNotFound
  | errors_New string
  | fmt_Errorf string "fmtarg list"
and fmtarg =
    ArgS string
  | ArgI int
  | ArgE error

subsection \<open>Time\<close>

text \<open>
  A \<^verbatim>\<open>time.Time\<close> is an instant, here a number of nanoseconds; \<^verbatim>\<open>t.Before(u)\<close> is
  \<open>t < u\<close>. A \<^verbatim>\<open>time.Duration\<close> is a signed count of nanoseconds; the source only
  compares durations with zero and passes them on, so they are integers.
\<close>

type_synonym time_Time = int
type_synonym time_Duration = int

definition time_Minute :: time_Duration where
  "time_Minute = 60 * 1000000000"

definition time_Hour :: time_Duration where
  "time_Hour = 60 * time_Minute"

text \<open>
  The injected clock \<^verbatim>\<open>now func() time.Time\<close> is not a pure function: two calls may
  give two instants. It is the sequence of the instants it returns, and whoever calls
  it counts the calls made so far.
\<close>

type_synonym clock = "nat \<Rightarrow> time_Time"

section \<open>The storage package, as far as the server uses it\<close>

text \<open>
  Modelled from the spec: the declaration of \<^verbatim>\<open>storage.Keys\<close> is not in the source
  at hand. The spec gives Keys as
  \<^verbatim>\<open>(signing_private, signing_public, verification_keys[{public, expiry}], next_rotation)\<close>;
  the source reads the field \<^verbatim>\<open>NextRotation\<close>.
\<close>

record storage_Keys =
  SigningKey :: string
  SigningKeyPub :: string
  VerificationKeys :: "(string \<times> time_Time) list"
  NextRotation :: time_Time

text \<open>
  Modelled from the spec: the declaration of \<^verbatim>\<open>storage.Password\<close> is not in the source
  at hand. The spec gives Password as \<^verbatim>\<open>(email, hash, username, user_id)\<close>; the source
  reads \<^verbatim>\<open>p.Hash\<close>, \<^verbatim>\<open>p.UserID\<close>, \<^verbatim>\<open>p.Username\<close> and \<^verbatim>\<open>p.Email\<close>.
\<close>

record storage_Password =
  p_Email :: string
  p_Hash :: string
  p_Username :: string
  p_UserID :: string

text \<open>
  Modelled from the spec: the declaration of \<^verbatim>\<open>storage.Connector\<close> is not in the source
  at hand. The spec gives the record as
  \<^verbatim>\<open>(id, type, name, resource_version, config_blob)\<close>; the source reads \<^verbatim>\<open>conn.ID\<close>,
  \<^verbatim>\<open>conn.Type\<close>, \<^verbatim>\<open>conn.Name\<close>, \<^verbatim>\<open>conn.ResourceVersion\<close> and \<^verbatim>\<open>conn.Config\<close>.
\<close>

record storage_Connector =
  conn_ID :: string
  conn_Type :: string
  conn_Name :: string
  conn_ResourceVersion :: string
  conn_Config :: string

text \<open>
  Modelled from the spec: the interface \<^verbatim>\<open>storage.Storage\<close> is not in the source at
  hand. A value of this record is the storage as it answers at one moment: what each
  of the four read operations the server package calls would return, as the Go pair
  of a value and an error. The storage is shared with other processes, so two calls
  of the server may see two different values of this record.
\<close>

record storage_Storage =
  storage_GetKeys :: "storage_Keys \<times> error option"
  GetPassword :: "string \<Rightarrow> storage_Password \<times> error option"
  GetConnector :: "string \<Rightarrow> storage_Connector \<times> error option"
  ListConnectors :: "storage_Connector list \<times> error option"

section \<open>The key cacher\<close>

text \<open>
  \<^verbatim>\<open>type keyCacher struct { storage.Storage; now func() time.Time; keys atomic.Value }\<close>.
  The slot \<open>keys\<close> "always holds nil or type *storage.Keys": \<open>None\<close> or \<open>Some\<close>.
  \<open>now_calls\<close> counts the calls of \<open>now\<close> made so far.
\<close>

record keyCacher =
  Storage :: storage_Storage
  now :: clock
  now_calls :: nat
  keys :: "storage_Keys option"

text \<open>\<^verbatim>\<open>newKeyCacher\<close>: a nil clock is replaced by \<^verbatim>\<open>time.Now\<close>; the slot starts empty.\<close>

definition newKeyCacher :: "clock \<Rightarrow> storage_Storage \<Rightarrow> clock option \<Rightarrow> keyCacher" where
  "newKeyCacher time_Now s now' =
     \<lparr>Storage = s,
      now = (case now' of None \<Rightarrow> time_Now | Some f \<Rightarrow> f),
      now_calls = 0,
      keys = None\<rparr>"

text \<open>One call of \<^verbatim>\<open>k.now()\<close>: the instant read, and the cacher with the call counted.\<close>

definition call_now :: "keyCacher \<Rightarrow> time_Time \<times> keyCacher" where
  "call_now k = (now k (now_calls k), k\<lparr>now_calls := Suc (now_calls k)\<rparr>)"

text \<open>
  Lines 405 to 413 of \<^verbatim>\<open>GetKeys\<close>, reached when the slot gave nothing usable: read
  the storage, return its error as it is, store the keys read when the clock is
  before their \<^verbatim>\<open>NextRotation\<close>.
\<close>

definition GetKeys_from_storage ::
  "keyCacher \<Rightarrow> (storage_Keys \<times> error option) \<times> keyCacher" where
  "GetKeys_from_storage k =
     (let (storageKeys, err) = storage_GetKeys (Storage k) in
      if err \<noteq> None then ((storageKeys, err), k)
      else
        (let (t, k1) = call_now k in
         if t < NextRotation storageKeys
         then ((storageKeys, None), k1\<lparr>keys := Some storageKeys\<rparr>)
         else ((storageKeys, None), k1)))"

text \<open>
  \<^verbatim>\<open>keyCacher.GetKeys\<close>. The condition of line 401 short-circuits: the clock is read
  only when the slot holds keys.
\<close>

definition GetKeys :: "keyCacher \<Rightarrow> (storage_Keys \<times> error option) \<times> keyCacher" where
  "GetKeys k =
     (case keys k of
        None \<Rightarrow> GetKeys_from_storage k
      | Some cached \<Rightarrow>
          (let (t, k1) = call_now k in
           if t < NextRotation cached then ((cached, None), k1)
           else GetKeys_from_storage k1))"

text \<open>
  A sequence of calls of \<^verbatim>\<open>GetKeys\<close> on one cacher. Other processes write the storage
  between the calls: the storage answers the i-th call as the i-th element of the
  list says. The result is the cacher after the last call.
\<close>

fun GetKeys_calls :: "keyCacher \<Rightarrow> storage_Storage list \<Rightarrow> keyCacher" where
  "GetKeys_calls k [] = k"
| "GetKeys_calls k (st # sts) = GetKeys_calls (snd (GetKeys (k\<lparr>Storage := st\<rparr>))) sts"

section \<open>The local password connector\<close>

text \<open>
  Modelled from the spec: the declaration of \<^verbatim>\<open>connector.Identity\<close> is not in the
  source at hand. The spec gives the claims a connector produces as
  \<^verbatim>\<open>(user_id, username, preferred_username, email, email_verified, groups[])\<close>; the
  source sets \<^verbatim>\<open>UserID\<close>, \<^verbatim>\<open>Username\<close>, \<^verbatim>\<open>Email\<close> and \<^verbatim>\<open>EmailVerified\<close>.
\<close>

record connector_Identity =
  UserID :: string
  Username :: string
  PreferredUsername :: string
  Email :: string
  EmailVerified :: bool
  Groups :: "string list"

text \<open>The zero value \<^verbatim>\<open>connector.Identity{}\<close>.\<close>

definition Identity_zero :: connector_Identity where
  "Identity_zero =
     \<lparr>UserID = [], Username = [], PreferredUsername = [], Email = [],
      EmailVerified = False, Groups = []\<rparr>"

text \<open>
  The two functions of \<^verbatim>\<open>golang.org/x/crypto/bcrypt\<close> that the password connector
  relies on. The library is not part of the repository: it is a parameter.
  \<^verbatim>\<open>Cost\<close> reads the cost a hash was made with, \<^verbatim>\<open>CompareHashAndPassword\<close> returns nil
  when the password matches the hash.
\<close>

record bcrypt =
  bcrypt_Cost :: "string \<Rightarrow> int \<times> error option"
  CompareHashAndPassword :: "string \<Rightarrow> string \<Rightarrow> error option"

text \<open>
  Modelled from the spec: \<^verbatim>\<open>checkCost\<close> is called by \<^verbatim>\<open>passwordDB.Login\<close> and is not in
  the source at hand. The spec says that the hash "is a bcrypt hash with cost in
  [4, 16]; hashes outside the range are rejected at login time", and that "a hash
  stored at cost 20 yields an explicit cost-out-of-range error". A hash whose cost
  cannot be read is no bcrypt hash with a cost in the range, and is rejected as well.
\<close>

definition checkCost :: "bcrypt \<Rightarrow> string \<Rightarrow> error option" where
  "checkCost bc hash =
     (let (actual, err) = bcrypt_Cost bc hash in
      case err of
        Some e \<Rightarrow> Some (fmt_Errorf ''parsing bcrypt hash: %v'' [ArgE e])
      | None \<Rightarrow>
          if actual < 4 \<or> 16 < actual
          then Some (fmt_Errorf ''hash cost = %d is outside the range [4, 16]'' [ArgI actual])
          else None)"

text \<open>\<^verbatim>\<open>type passwordDB struct { s storage.Storage }\<close>.\<close>

record passwordDB =
  db_s :: storage_Storage

text \<open>
  \<^verbatim>\<open>passwordDB.Login\<close>. The context and the scopes are not used by the source. The
  result is the Go triple of an identity, a flag and an error.
\<close>

definition Login ::
  "bcrypt \<Rightarrow> passwordDB \<Rightarrow> string \<Rightarrow> string \<Rightarrow> connector_Identity \<times> bool \<times> error option" where
  "Login bc db email password =
     (let (p, err) = GetPassword (db_s db) email in
      case err of
        Some e \<Rightarrow>
          if e \<noteq> ErrNotFound
          then (Identity_zero, False, Some (fmt_Errorf ''get password: %v'' [ArgE e]))
          else (Identity_zero, False, None)
      | None \<Rightarrow>
          (case checkCost bc (p_Hash p) of
             Some e \<Rightarrow> (Identity_zero, False, Some e)
           | None \<Rightarrow>
               (case CompareHashAndPassword bc (p_Hash p) password of
                  Some e \<Rightarrow> (Identity_zero, False, None)
                | None \<Rightarrow>
                    (Identity_zero
                       \<lparr>UserID := p_UserID p,
                        Username := p_Username p,
                        Email := p_Email p,
                        EmailVerified := True\<rparr>,
                     True, None))))"

text \<open>\<^verbatim>\<open>passwordDB.Refresh\<close>. The identity is passed by value and returned updated.\<close>

definition Refresh ::
  "passwordDB \<Rightarrow> connector_Identity \<Rightarrow> connector_Identity \<times> error option" where
  "Refresh db identity =
     (let (p, err) = GetPassword (db_s db) (Email identity) in
      case err of
        Some e \<Rightarrow>
          if e = ErrNotFound
          then (Identity_zero, Some (errors_New ''user not found''))
          else (Identity_zero, Some (fmt_Errorf ''get password: %v'' [ArgE e]))
      | None \<Rightarrow>
          if p_UserID p \<noteq> UserID identity
          then (Identity_zero, Some (errors_New ''user not found''))
          else (identity\<lparr>Username := p_Username p\<rparr>, None))"

section \<open>The server and its connector map\<close>

text \<open>\<^verbatim>\<open>const LocalConnector = "local"\<close>.\<close>

definition LocalConnector :: string where
  "LocalConnector = ''local''"

text \<open>
  A value of the interface \<^verbatim>\<open>connector.Connector\<close>: the built-in password connector
  \<^verbatim>\<open>passwordDB{s.storage}\<close>, which shares the server's storage and so carries nothing of
  its own, or an instance that the \<^verbatim>\<open>Open\<close> method of a connector package returned.
  The connector packages are not in the source at hand: their instances are values
  of a type parameter. A nil interface is \<open>None\<close>.
\<close>

datatype 'c connector_Connector =
    newPasswordDB
  | opened 'c

text \<open>\<^verbatim>\<open>type Connector struct { ResourceVersion string; Connector connector.Connector }\<close>.\<close>

record 'c Connector =
  ResourceVersion :: string
  Connector :: "'c connector_Connector option"

text \<open>The zero value \<^verbatim>\<open>Connector{}\<close>.\<close>

definition Connector_zero :: "'c Connector" where
  "Connector_zero = \<lparr>ResourceVersion = [], Connector = None\<rparr>"

text \<open>
  The config structs that the factories of \<^verbatim>\<open>ConnectorsConfig\<close> allocate, one
  constructor for each \<^verbatim>\<open>new(pkg.Config)\<close> of the table.
\<close>

datatype ConnectorConfig_struct =
    mock_CallbackConfig
  | mock_PasswordConfig
  | ldap_Config
  | github_Config
  | gitlab_Config
  | oidc_Config
  | oauth_Config
  | saml_Config
  | cf_Config
  | authproxy_Config
  | linkedin_Config
  | microsoft_Config

text \<open>\<^verbatim>\<open>var ConnectorsConfig = map[string]func() ConnectorConfig{...}\<close>, key by key.\<close>

definition ConnectorsConfig :: "string \<rightharpoonup> ConnectorConfig_struct" where
  "ConnectorsConfig =
     [''mockCallback'' \<mapsto> mock_CallbackConfig,
      ''mockPassword'' \<mapsto> mock_PasswordConfig,
      ''ldap'' \<mapsto> ldap_Config,
      ''github'' \<mapsto> github_Config,
      ''gitlab'' \<mapsto> gitlab_Config,
      ''oidc'' \<mapsto> oidc_Config,
      ''oauth'' \<mapsto> oauth_Config,
      ''saml'' \<mapsto> saml_Config,
      ''cf'' \<mapsto> cf_Config,
      ''authproxy'' \<mapsto> authproxy_Config,
      ''linkedin'' \<mapsto> linkedin_Config,
      ''microsoft'' \<mapsto> microsoft_Config,
      ''samlExperimental'' \<mapsto> saml_Config]"

text \<open>\<^verbatim>\<open>url.URL\<close>, of which the source reads \<^verbatim>\<open>Path\<close>.\<close>

record url_URL =
  url_Scheme :: string
  url_Host :: string
  url_Path :: string

text \<open>\<^verbatim>\<open>type WebConfig struct\<close>; \<^verbatim>\<open>Dir\<close> is the name of the directory served.\<close>

record WebConfig =
  Dir :: string
  LogoURL :: string
  Web_Issuer :: string
  Theme :: string

text \<open>
  What the server package calls outside the source at hand. The standard library:
  \<^verbatim>\<open>time.Now\<close>, \<^verbatim>\<open>url.Parse\<close>, \<^verbatim>\<open>json.Unmarshal\<close> into a config struct (which it fills
  in place). Other files of the repository: \<^verbatim>\<open>loadTemplates\<close> and
  \<^verbatim>\<open>Server.discoveryHandler\<close>, of which only the error matters here; the zero config
  struct \<^verbatim>\<open>new(pkg.Config)\<close> of each connector package and its method \<^verbatim>\<open>Open\<close> (the
  logger it is given only logs). \<open>'cfg\<close> is the type of the config structs, \<open>'c\<close> that
  of the connector instances.
\<close>

record ('c, 'cfg) deps =
  time_Now :: clock
  url_Parse :: "string \<Rightarrow> url_URL \<times> error option"
  loadTemplates :: "WebConfig \<Rightarrow> string \<Rightarrow> error option"
  discoveryHandler :: "error option"
  new_Config :: "ConnectorConfig_struct \<Rightarrow> 'cfg"
  json_Unmarshal :: "string \<Rightarrow> 'cfg \<Rightarrow> 'cfg \<times> error option"
  cfg_Open :: "'cfg \<Rightarrow> string \<Rightarrow> 'c option \<times> error option"

text \<open>
  \<^verbatim>\<open>type Server struct\<close>. The mutex \<^verbatim>\<open>mu\<close> guards single reads and writes of
  \<open>connectors\<close> and has no state of its own in a sequential model; \<^verbatim>\<open>mux\<close>, \<^verbatim>\<open>templates\<close>
  and \<^verbatim>\<open>logger\<close> are not read by the functions modelled here. \<open>storage\<close> is the key
  cacher that \<^verbatim>\<open>newServer\<close> wraps around the configured storage; the methods a
  \<^verbatim>\<open>keyCacher\<close> does not define are those of its embedded \<open>Storage\<close>.
\<close>

record 'c Server =
  issuerURL :: url_URL
  connectors :: "string \<rightharpoonup> 'c Connector"
  storage :: keyCacher
  skipApproval :: bool
  passwordConnector :: string
  supportedResponseTypes :: "string \<rightharpoonup> bool"
  Server_now :: clock
  idTokensValidFor :: time_Duration

text \<open>\<^verbatim>\<open>openConnector\<close>: the factory of the type, the config parsed, the connector opened.\<close>

definition openConnector ::
  "('c, 'cfg) deps \<Rightarrow> storage_Connector \<Rightarrow> 'c connector_Connector option \<times> error option" where
  "openConnector env conn =
     (case ConnectorsConfig (conn_Type conn) of
        None \<Rightarrow> (None, Some (fmt_Errorf ''unknown connector type %q'' [ArgS (conn_Type conn)]))
      | Some f \<Rightarrow>
          (let connConfig = new_Config env f;
               (connConfig', perr) =
                  (if length (conn_Config conn) \<noteq> 0
                   then json_Unmarshal env (conn_Config conn) connConfig
                   else (connConfig, None))
           in case perr of
                Some e \<Rightarrow> (None, Some (fmt_Errorf ''parse connector config: %v'' [ArgE e]))
              | None \<Rightarrow>
                  (let (c, err) = cfg_Open env connConfig' (conn_ID conn) in
                   case err of
                     Some e \<Rightarrow>
                       (map_option opened c,
                        Some (fmt_Errorf ''failed to create connector %s: %v''
                                [ArgS (conn_ID conn), ArgE e]))
                   | None \<Rightarrow> (map_option opened c, None))))"

text \<open>
  \<^verbatim>\<open>Server.OpenConnector\<close>: the result, and the server with its connector map as the
  call leaves it.
\<close>

definition OpenConnector ::
  "('c, 'cfg) deps \<Rightarrow> 'c Server \<Rightarrow> storage_Connector \<Rightarrow>
     ('c Connector \<times> error option) \<times> 'c Server" where
  "OpenConnector env srv conn =
     (let (c, err) =
        (if conn_Type conn = LocalConnector then (Some newPasswordDB, None)
         else openConnector env conn)
      in case err of
           Some e \<Rightarrow>
             ((Connector_zero, Some (fmt_Errorf ''failed to open connector: %v'' [ArgE e])), srv)
         | None \<Rightarrow>
             (let connector = \<lparr>ResourceVersion = conn_ResourceVersion conn, Connector = c\<rparr>
              in ((connector, None),
                  srv\<lparr>connectors := (connectors srv)(conn_ID conn \<mapsto> connector)\<rparr>)))"

text \<open>\<^verbatim>\<open>Server.getConnector\<close>.\<close>

definition getConnector ::
  "('c, 'cfg) deps \<Rightarrow> 'c Server \<Rightarrow> string \<Rightarrow> ('c Connector \<times> error option) \<times> 'c Server" where
  "getConnector env srv id' =
     (let (storageConnector, err) = GetConnector (Storage (storage srv)) id' in
      case err of
        Some e \<Rightarrow>
          ((Connector_zero,
            Some (fmt_Errorf ''failed to get connector object from storage: %v'' [ArgE e])), srv)
      | None \<Rightarrow>
          (let (conn, ok) =
             (case connectors srv id' of
                None \<Rightarrow> (Connector_zero, False)
              | Some c \<Rightarrow> (c, True))
           in if \<not> ok \<or> conn_ResourceVersion storageConnector \<noteq> ResourceVersion conn
              then
                (let ((conn', err'), srv') = OpenConnector env srv storageConnector in
                 case err' of
                   Some e \<Rightarrow>
                     ((Connector_zero,
                       Some (fmt_Errorf ''failed to open connector: %v'' [ArgE e])), srv')
                 | None \<Rightarrow> ((conn', None), srv'))
              else ((conn, None), srv)))"

section \<open>Constructing the server\<close>

text \<open>
  \<^verbatim>\<open>type Config struct\<close>. \<open>Config_Storage\<close> is the field \<^verbatim>\<open>Storage\<close>, an interface that may
  be nil; \<open>Now\<close> may be nil. \<open>PrometheusRegistry\<close> may be nil; a registry is what its
  method \<^verbatim>\<open>Register\<close> returns for the request counter. The field \<^verbatim>\<open>Logger\<close>, which is
  only replaced by a default when nil and then logged to, is left out.
\<close>

record Config =
  Issuer :: string
  Config_Storage :: "storage_Storage option"
  SupportedResponseTypes :: "string list"
  AllowedOrigins :: "string list"
  SkipApprovalScreen :: bool
  PasswordConnector :: string
  RotateKeysAfter :: time_Duration
  IDTokensValidFor :: time_Duration
  GCFrequency :: time_Duration
  Now :: "clock option"
  Web :: WebConfig
  PrometheusRegistry :: "error option option"

text \<open>\<^verbatim>\<open>func value(val, defaultValue time.Duration) time.Duration\<close>.\<close>

definition value' :: "time_Duration \<Rightarrow> time_Duration \<Rightarrow> time_Duration" where
  "value' val defaultValue = (if val = 0 then defaultValue else val)"

text \<open>
  Modelled from the spec: the constants \<^verbatim>\<open>responseTypeCode\<close>, \<^verbatim>\<open>responseTypeIDToken\<close>
  and \<^verbatim>\<open>responseTypeToken\<close> are not in the source at hand. The spec gives the set of
  response types as \<^verbatim>\<open>{code, id_token, token}\<close>, with the default \<^verbatim>\<open>[code]\<close>.
\<close>

definition responseTypeCode :: string where
  "responseTypeCode = ''code''"

definition responseTypeIDToken :: string where
  "responseTypeIDToken = ''id_token''"

definition responseTypeToken :: string where
  "responseTypeToken = ''token''"

text \<open>
  Modelled from the spec: \<^verbatim>\<open>rotationStrategy\<close> and \<^verbatim>\<open>defaultRotationStrategy\<close> are not in
  the source at hand. By the spec a rotation is driven by \<^verbatim>\<open>rotate_keys_after\<close> and keeps
  a retired key verifiable for \<^verbatim>\<open>id_tokens_valid_for\<close>: the strategy is these two
  durations, in the order \<^verbatim>\<open>NewServer\<close> passes them.
\<close>

record rotationStrategy =
  rotationFrequency :: time_Duration
  idTokenValidFor :: time_Duration

definition defaultRotationStrategy :: "time_Duration \<Rightarrow> time_Duration \<Rightarrow> rotationStrategy" where
  "defaultRotationStrategy rotationFrequency' idTokenValidFor' =
     \<lparr>rotationFrequency = rotationFrequency', idTokenValidFor = idTokenValidFor'\<rparr>"

text \<open>
  The two background workers the constructor starts, each with the arguments of its
  call (the context apart): \<^verbatim>\<open>s.startKeyRotation(ctx, rotationStrategy, c.Now)\<close> and
  \<^verbatim>\<open>s.startGarbageCollection(ctx, frequency, c.Now)\<close>.
\<close>

datatype worker =
    startKeyRotation rotationStrategy clock
  | startGarbageCollection time_Duration clock

text \<open>
  The loop of lines 178 to 185 over the response types, with the map \<^verbatim>\<open>supported\<close>
  built so far: it stops at the first response type that is none of the three.
\<close>

fun supported_loop :: "string list \<Rightarrow> (string \<rightharpoonup> bool) \<Rightarrow> error + (string \<rightharpoonup> bool)" where
  "supported_loop [] supported = Inr supported"
| "supported_loop (respType # rest) supported =
     (if respType = responseTypeCode \<or> respType = responseTypeIDToken
         \<or> respType = responseTypeToken
      then supported_loop rest (supported(respType \<mapsto> True))
      else Inl (fmt_Errorf ''unsupported response_type %q'' [ArgS respType]))"

text \<open>
  The loop of lines 220 to 224 over the connectors of the storage: it stops at the
  first connector that does not open.
\<close>

fun OpenConnector_loop ::
  "('c, 'cfg) deps \<Rightarrow> 'c Server \<Rightarrow> storage_Connector list \<Rightarrow> error option \<times> 'c Server" where
  "OpenConnector_loop env srv [] = (None, srv)"
| "OpenConnector_loop env srv (conn # rest) =
     (let ((c, err), srv') = OpenConnector env srv conn in
      case err of
        Some e \<Rightarrow>
          (Some (fmt_Errorf ''server: Failed to open connector %s: %v''
                   [ArgS (conn_ID conn), ArgE e]), srv')
      | None \<Rightarrow> OpenConnector_loop env srv' rest)"

text \<open>
  \<^verbatim>\<open>newServer\<close>. The result is the Go pair of a server (nil is \<open>None\<close>) and an error,
  and the workers started. Every \<^verbatim>\<open>return nil, err\<close> of the source is a branch here,
  in the order of the source. The routes are registered on a router that none of
  these branches reads; of that part only the two calls that can fail are kept, the
  registration of the request counter and \<^verbatim>\<open>s.discoveryHandler()\<close>.
\<close>

definition newServer ::
  "('c, 'cfg) deps \<Rightarrow> Config \<Rightarrow> rotationStrategy \<Rightarrow>
     'c Server option \<times> error option \<times> worker list" where
  "newServer env c rotationStrategy' =
     (let (issuerURL', err) = url_Parse env (Issuer c) in
      if err \<noteq> None
      then (None, Some (fmt_Errorf ''server: can't parse issuer URL'' []), [])
      else
        (case Config_Storage c of
           None \<Rightarrow> (None, Some (errors_New ''server: storage cannot be nil''), [])
         | Some st \<Rightarrow>
             (let responseTypes =
                (if length (SupportedResponseTypes c) = 0 then [responseTypeCode]
                 else SupportedResponseTypes c)
              in case supported_loop responseTypes Map.empty of
                   Inl e \<Rightarrow> (None, Some e, [])
                 | Inr supported \<Rightarrow>
                     (let Now' = (case Now c of None \<Rightarrow> time_Now env | Some f \<Rightarrow> f) in
                      case loadTemplates env (Web c) (Issuer c) of
                        Some e \<Rightarrow>
                          (None,
                           Some (fmt_Errorf ''server: failed to templates: %v'' [ArgE e]), [])
                      | None \<Rightarrow>
                          (let srv =
                             \<lparr>issuerURL = issuerURL',
                              connectors = Map.empty,
                              storage = newKeyCacher (time_Now env) st (Some Now'),
                              skipApproval = SkipApprovalScreen c,
                              passwordConnector = PasswordConnector c,
                              supportedResponseTypes = supported,
                              Server_now = Now',
                              idTokensValidFor = value' (IDTokensValidFor c) (24 * time_Hour)\<rparr>;
                               (storageConnectors, lerr) = ListConnectors st
                           in case lerr of
                                Some e \<Rightarrow>
                                  (None,
                                   Some (fmt_Errorf
                                     ''server: failed to list connector objects from storage: %v''
                                     [ArgE e]), [])
                              | None \<Rightarrow>
                                  if length storageConnectors = 0 \<and> connectors srv = Map.empty
                                  then (None, Some (errors_New ''server: no connectors specified''), [])
                                  else
                                    (case OpenConnector_loop env srv storageConnectors of
                                       (Some e, srv') \<Rightarrow> (None, Some e, [])
                                     | (None, srv') \<Rightarrow>
                                         (case (case PrometheusRegistry c of
                                                  None \<Rightarrow> None
                                                | Some Register \<Rightarrow> Register) of
                                            Some e \<Rightarrow>
                                              (None,
                                               Some (fmt_Errorf
                                                 ''server: Failed to register Prometheus HTTP metrics: %v''
                                                 [ArgE e]), [])
                                          | None \<Rightarrow>
                                              (case discoveryHandler env of
                                                 Some e \<Rightarrow> (None, Some e, [])
                                               | None \<Rightarrow>
                                                   (Some srv', None,
                                                    [startKeyRotation rotationStrategy' Now',
                                                     startGarbageCollection
                                                       (value' (GCFrequency c) (5 * time_Minute))
                                                       Now'])))))))))"

text \<open>\<^verbatim>\<open>NewServer\<close>: \<^verbatim>\<open>newServer\<close> with the default rotation strategy.\<close>

definition NewServer ::
  "('c, 'cfg) deps \<Rightarrow> Config \<Rightarrow> 'c Server option \<times> error option \<times> worker list" where
  "NewServer env c =
     newServer env c
       (defaultRotationStrategy
          (value' (RotateKeysAfter c) (6 * time_Hour))
          (value' (IDTokensValidFor c) (24 * time_Hour)))"

section \<open>The generic callback route\<close>

subsection \<open>Bytes and strings of the standard library\<close>

text \<open>
  A Go string is a sequence of bytes, as \<open>string\<close> is here. The route tests
  \<^verbatim>\<open>strings.HasPrefix(strings.ToLower(key), "x-remote-")\<close>. \<^verbatim>\<open>strings.ToLower\<close> maps the
  letters \<^verbatim>\<open>A\<close> to \<^verbatim>\<open>Z\<close> to \<^verbatim>\<open>a\<close> to \<^verbatim>\<open>z\<close> and leaves every other byte below 128 as it
  is. Of the characters beyond ASCII, which it lowers by the Unicode tables, none
  lowers to a byte of \<^verbatim>\<open>x-remote-\<close>, so for this test it is enough to lower byte by
  byte.
\<close>

definition is_upper :: "char \<Rightarrow> bool" where
  "is_upper c = (65 \<le> (of_char c :: nat) \<and> (of_char c :: nat) \<le> 90)"

definition is_lower :: "char \<Rightarrow> bool" where
  "is_lower c = (97 \<le> (of_char c :: nat) \<and> (of_char c :: nat) \<le> 122)"

definition to_lower :: "char \<Rightarrow> char" where
  "to_lower c = (if is_upper c then char_of ((of_char c :: nat) + 32) else c)"

definition to_upper :: "char \<Rightarrow> char" where
  "to_upper c = (if is_lower c then char_of ((of_char c :: nat) - 32) else c)"

definition strings_ToLower :: "string \<Rightarrow> string" where
  "strings_ToLower str = map to_lower str"

definition strings_HasPrefix :: "string \<Rightarrow> string \<Rightarrow> bool" where
  "strings_HasPrefix str prefix =
     (length prefix \<le> length str \<and> take (length prefix) str = prefix)"

text \<open>
  \<^verbatim>\<open>net/textproto\<close>: a byte that may stand in a header field name (a token character of
  RFC 7230): a letter, a digit, or one of \<^verbatim>\<open>! # $ % & ' * + - . ^ _ ` | ~\<close>.
\<close>

definition validHeaderFieldByte :: "char \<Rightarrow> bool" where
  "validHeaderFieldByte c =
     (is_upper c \<or> is_lower c
      \<or> (48 \<le> (of_char c :: nat) \<and> (of_char c :: nat) \<le> 57)
      \<or> (of_char c :: nat) \<in> set [33, 35, 36, 37, 38, 39, 42, 43, 45, 46, 94, 95, 96, 124, 126])"

text \<open>
  The loop of \<^verbatim>\<open>canonicalMIMEHeaderKey\<close>: upper case for the first letter and for a
  letter after a dash, lower case for every other letter. \<open>upper\<close> says whether the
  byte at hand starts a word.
\<close>

fun canonical_loop :: "bool \<Rightarrow> string \<Rightarrow> string" where
  "canonical_loop upper [] = []"
| "canonical_loop upper (c # cs) =
     (let c' = (if upper \<and> is_lower c then to_upper c
                else if \<not> upper \<and> is_upper c then to_lower c
                else c)
      in c' # canonical_loop (c' = CHR ''-'') cs)"

text \<open>
  \<^verbatim>\<open>textproto.CanonicalMIMEHeaderKey\<close>: a key with a byte that may not stand in a field
  name is returned as it is, any other key in its canonical form.
\<close>

definition CanonicalMIMEHeaderKey :: "string \<Rightarrow> string" where
  "CanonicalMIMEHeaderKey str =
     (if list_all validHeaderFieldByte str then canonical_loop True str else str)"

subsection \<open>The handler of the route\<close>

text \<open>\<^verbatim>\<open>type Header map[string][]string\<close> of \<^verbatim>\<open>net/http\<close>.\<close>

type_synonym http_Header = "string \<rightharpoonup> string list"

text \<open>\<^verbatim>\<open>Header.Del\<close> deletes the entry of the key's canonical form.\<close>

definition Header_Del :: "http_Header \<Rightarrow> string \<Rightarrow> http_Header" where
  "Header_Del h key = h(CanonicalMIMEHeaderKey key := None)"

text \<open>
  \<^verbatim>\<open>http.Request\<close>, of which the route changes only \<^verbatim>\<open>Header\<close>; the request is shared
  with the handler it is passed to, which sees the change.
\<close>

record http_Request =
  Method :: string
  RequestURI :: string
  Header :: http_Header

text \<open>
  The loop of lines 282 to 286. Go promises no order for \<^verbatim>\<open>range\<close> over a map: the
  keys come in some order \<open>order\<close>, and an entry deleted before the loop reaches it
  is not produced.
\<close>

fun strip_X_Remote :: "string list \<Rightarrow> http_Header \<Rightarrow> http_Header" where
  "strip_X_Remote [] h = h"
| "strip_X_Remote (key # rest) h =
     strip_X_Remote rest
       (if h key \<noteq> None \<and> strings_HasPrefix (strings_ToLower key) ''x-remote-''
        then Header_Del h key
        else h)"

text \<open>
  The handler registered at \<^verbatim>\<open>path.Join(issuerURL.Path, "/callback")\<close>:
  \<^verbatim>\<open>s.handleConnectorCallback\<close>, which is not in the source at hand and is a parameter,
  is called with the response writer and the stripped request.
\<close>

definition callback_route ::
  "('w \<Rightarrow> http_Request \<Rightarrow> 'a) \<Rightarrow> string list \<Rightarrow> 'w \<Rightarrow> http_Request \<Rightarrow> 'a" where
  "callback_route handleConnectorCallback order w r =
     handleConnectorCallback w (r\<lparr>Header := strip_X_Remote order (Header r)\<rparr>)"

section \<open>Inputs for the examples\<close>

text \<open>Keys that differ in their \<^verbatim>\<open>NextRotation\<close> only.\<close>

definition example_Keys :: "time_Time \<Rightarrow> storage_Keys" where
  "example_Keys next_rotation =
     \<lparr>SigningKey = ''private key'', SigningKeyPub = ''public key'',
      VerificationKeys = [], NextRotation = next_rotation\<rparr>"

text \<open>The zero values \<^verbatim>\<open>storage.Password{}\<close> and \<^verbatim>\<open>storage.Connector{}\<close>.\<close>

definition Password_zero :: storage_Password where
  "Password_zero = \<lparr>p_Email = [], p_Hash = [], p_Username = [], p_UserID = []\<rparr>"

definition storage_Connector_zero :: storage_Connector where
  "storage_Connector_zero =
     \<lparr>conn_ID = [], conn_Type = [], conn_Name = [], conn_ResourceVersion = [],
      conn_Config = []\<rparr>"

text \<open>A storage that holds the given keys, no password and no connector.\<close>

definition example_Storage :: "storage_Keys \<Rightarrow> storage_Storage" where
  "example_Storage ks =
     \<lparr>storage_GetKeys = (ks, None),
      GetPassword = (\<lambda>email. (Password_zero, Some ErrNotFound)),
      GetConnector = (\<lambda>i. (storage_Connector_zero, Some ErrNotFound)),
      ListConnectors = ([], None)\<rparr>"

text \<open>A clock that reads 10 at its first call and 50 ever after.\<close>

definition example_clock :: clock where
  "example_clock n = (if n = 0 then 10 else 50)"

text \<open>A new key cacher on that clock, over a storage whose keys rotate at 100.\<close>

definition example_new_cacher :: keyCacher where
  "example_new_cacher =
     newKeyCacher example_clock (example_Storage (example_Keys 100)) (Some example_clock)"

text \<open>A key cacher on that clock after its first call, with the given slot.\<close>

definition example_cacher :: "storage_Keys option \<Rightarrow> storage_Storage \<Rightarrow> keyCacher" where
  "example_cacher slot st = \<lparr>Storage = st, now = example_clock, now_calls = 1, keys = slot\<rparr>"

text \<open>
  A stand-in for bcrypt: every hash has the given cost, and a hash matches the
  password it is equal to.
\<close>

definition example_bcrypt :: "int \<Rightarrow> bcrypt" where
  "example_bcrypt cost =
     \<lparr>bcrypt_Cost = (\<lambda>hash. (cost, None)),
      CompareHashAndPassword =
        (\<lambda>hash password.
           if hash = password then None
           else Some (errors_New ''hashedPassword is not the hash of the given password''))\<rparr>"

text \<open>A password store with the one user \<^verbatim>\<open>a@b.c\<close>.\<close>

definition example_Password :: storage_Password where
  "example_Password =
     \<lparr>p_Email = ''a@b.c'', p_Hash = ''hunter2'', p_Username = ''alice'', p_UserID = ''u1''\<rparr>"

definition example_passwordDB :: passwordDB where
  "example_passwordDB =
     \<lparr>db_s = (example_Storage (example_Keys 100))
        \<lparr>GetPassword :=
           (\<lambda>email. if email = ''a@b.c'' then (example_Password, None)
                    else (Password_zero, Some ErrNotFound))\<rparr>\<rparr>"

text \<open>The identity of that user as a refresh token carries it, with an older user name.\<close>

definition example_Identity :: connector_Identity where
  "example_Identity =
     \<lparr>UserID = ''u1'', Username = ''al'', PreferredUsername = ''ally'', Email = ''a@b.c'',
      EmailVerified = True, Groups = [''staff'']\<rparr>"

text \<open>The zero value \<^verbatim>\<open>url.URL{}\<close>.\<close>

definition URL_zero :: url_URL where
  "URL_zero = \<lparr>url_Scheme = [], url_Host = [], url_Path = []\<rparr>"

text \<open>
  Stand-ins for what the server calls outside the source at hand. One issuer URL
  parses. A config struct is the text parsed into it; the text \<^verbatim>\<open>{\<close> does not parse. A
  connector instance is named by its id and its config; the config
  \<^verbatim>\<open>{host: unreachable}\<close> does not open.
\<close>

definition example_deps :: "(string, string) deps" where
  "example_deps =
     \<lparr>time_Now = example_clock,
      url_Parse =
        (\<lambda>rawurl.
           if rawurl = ''http://127.0.0.1:5556/dex''
           then (\<lparr>url_Scheme = ''http'', url_Host = ''127.0.0.1:5556'', url_Path = ''/dex''\<rparr>, None)
           else (URL_zero, Some (errors_New ''invalid URL''))),
      loadTemplates = (\<lambda>web issuer. None),
      discoveryHandler = None,
      new_Config = (\<lambda>f. []),
      json_Unmarshal =
        (\<lambda>data connConfig.
           if data = ''{'' then (connConfig, Some (errors_New ''unexpected end of JSON input''))
           else (data, None)),
      cfg_Open =
        (\<lambda>connConfig i.
           if connConfig = ''{host: unreachable}''
           then (None, Some (errors_New ''dial failed''))
           else (Some (i @ '' '' @ connConfig), None))\<rparr>"

text \<open>The stored record of the connector \<^verbatim>\<open>c1\<close>, by type, resource version and config.\<close>

definition example_Connector :: "string \<Rightarrow> string \<Rightarrow> string \<Rightarrow> storage_Connector" where
  "example_Connector type version config =
     \<lparr>conn_ID = ''c1'', conn_Type = type, conn_Name = ''Connector 1'',
      conn_ResourceVersion = version, conn_Config = config\<rparr>"

text \<open>
  A server whose connector map holds, for \<^verbatim>\<open>c1\<close>, an instance opened at resource
  version 1, and whose storage holds the given record for \<^verbatim>\<open>c1\<close>.
\<close>

definition example_Server :: "storage_Connector \<Rightarrow> string Server" where
  "example_Server stored =
     \<lparr>issuerURL = \<lparr>url_Scheme = ''http'', url_Host = ''127.0.0.1:5556'', url_Path = ''/dex''\<rparr>,
      connectors =
        [''c1'' \<mapsto> \<lparr>ResourceVersion = ''1'', Connector = Some (opened ''c1 {host: a}'')\<rparr>],
      storage =
        newKeyCacher example_clock
          ((example_Storage (example_Keys 100))
             \<lparr>GetConnector :=
                (\<lambda>i. if i = ''c1'' then (stored, None)
                     else (storage_Connector_zero, Some ErrNotFound))\<rparr>)
          None,
      skipApproval = False,
      passwordConnector = [],
      supportedResponseTypes = [''code'' \<mapsto> True],
      Server_now = example_clock,
      idTokensValidFor = 24 * time_Hour\<rparr>"

text \<open>
  A config that leaves the response types and the three durations at their zero
  values; its storage lists one connector.
\<close>

definition example_Config :: Config where
  "example_Config =
     \<lparr>Issuer = ''http://127.0.0.1:5556/dex'',
      Config_Storage =
        Some ((example_Storage (example_Keys 100))
          \<lparr>ListConnectors := ([example_Connector ''ldap'' ''1'' ''{host: a}''], None)\<rparr>),
      SupportedResponseTypes = [],
      AllowedOrigins = [],
      SkipApprovalScreen = False,
      PasswordConnector = [],
      RotateKeysAfter = 0,
      IDTokensValidFor = 0,
      GCFrequency = 0,
      Now = Some example_clock,
      Web = \<lparr>Dir = ''web'', LogoURL = [], Web_Issuer = [], Theme = []\<rparr>,
      PrometheusRegistry = None\<rparr>"

text \<open>
  A request to the callback route as \<^verbatim>\<open>net/http\<close> delivers it, with two headers that an
  authenticating proxy would set.
\<close>

definition example_Request :: http_Request where
  "example_Request =
     \<lparr>Method = ''GET'', RequestURI = ''/dex/callback?state=xyz'',
      Header = [''Accept'' \<mapsto> [''text/html''], ''X-Remote-User'' \<mapsto> [''admin''],
                ''X-Remote-Group'' \<mapsto> [''wheel'']]\<rparr>"

text \<open>
  The same request built by hand, with the name of the first proxy header in lower
  case, and a handler that returns the request it is called with.
\<close>

definition example_Request_lower :: http_Request where
  "example_Request_lower =
     \<lparr>Method = ''GET'', RequestURI = ''/dex/callback?state=xyz'',
      Header = [''Accept'' \<mapsto> [''text/html''], ''x-remote-user'' \<mapsto> [''admin'']]\<rparr>"

definition example_handler :: "unit \<Rightarrow> http_Request \<Rightarrow> http_Request" where
  "example_handler w request = request"

section \<open>Theorems\<close>

subsection \<open>The key cacher\<close>

lemma GetKeys_hit:
  assumes "keys k = Some cached" and "now k (now_calls k) < NextRotation cached"
  shows "GetKeys (k\<lparr>Storage := st\<rparr>)
           = ((cached, None), k\<lparr>Storage := st, now_calls := Suc (now_calls k)\<rparr>)"
  using assms by (simp add: GetKeys_def call_now_def)

lemma GetKeys_miss_result:
  assumes "\<not> (\<exists>c. keys k = Some c \<and> now k (now_calls k) < NextRotation c)"
  shows "fst (GetKeys k) = storage_GetKeys (Storage k)"
  using assms
  by (auto simp: GetKeys_def GetKeys_from_storage_def call_now_def
      split: option.splits prod.splits)

lemma GetKeys_miss_slot:
  assumes "\<not> (\<exists>c. keys k = Some c \<and> now k (now_calls k) < NextRotation c)"
  shows "keys (snd (GetKeys k)) =
      (if snd (storage_GetKeys (Storage k)) = None \<and>
          now k (if keys k = None then now_calls k else Suc (now_calls k))
            < NextRotation (fst (storage_GetKeys (Storage k)))
       then Some (fst (storage_GetKeys (Storage k))) else keys k)"
  using assms
  by (auto simp: GetKeys_def GetKeys_from_storage_def call_now_def
      split: option.splits prod.splits)

text \<open>
  Claim C1. For every call of \<^verbatim>\<open>keyCacher.GetKeys\<close>: when the slot holds keys and the
  clock is strictly before their \<^verbatim>\<open>NextRotation\<close>, the call returns these keys and a nil
  error whatever the storage \<open>st\<close> holds, and leaves storage and slot as they are (the
  storage is not consulted). Otherwise the call returns what the storage returns, and
  the slot afterwards holds the keys read exactly when the storage gave no error and
  the clock, read after the storage, is strictly before the \<^verbatim>\<open>NextRotation\<close> read; in
  every other case the slot is as before.
\<close>

theorem C1_GetKeys_cached_or_storage:
  "(keys k = Some cached \<and> now k (now_calls k) < NextRotation cached \<longrightarrow>
      GetKeys (k\<lparr>Storage := st\<rparr>)
        = ((cached, None), k\<lparr>Storage := st, now_calls := Suc (now_calls k)\<rparr>))
   \<and> (\<not> (\<exists>c. keys k = Some c \<and> now k (now_calls k) < NextRotation c) \<longrightarrow>
        fst (GetKeys k) = storage_GetKeys (Storage k)
        \<and> keys (snd (GetKeys k)) =
            (if snd (storage_GetKeys (Storage k)) = None \<and>
                now k (if keys k = None then now_calls k else Suc (now_calls k))
                  < NextRotation (fst (storage_GetKeys (Storage k)))
             then Some (fst (storage_GetKeys (Storage k))) else keys k))"
  using GetKeys_hit GetKeys_miss_result GetKeys_miss_slot by blast

text \<open>
  The theorem at three cachers whose clock reads 50: a slot with keys that rotate at
  100 is served from the slot; a slot with keys that rotated at 40 is served from the
  storage, whose keys are stored when they rotate at 200 and not when they rotated at
  45.
\<close>

theorem C1_GetKeys_cached_or_storage_witness:
  "GetKeys (example_cacher (Some (example_Keys 100)) (example_Storage (example_Keys 200)))
     = ((example_Keys 100, None),
        (example_cacher (Some (example_Keys 100)) (example_Storage (example_Keys 200)))
          \<lparr>now_calls := 2\<rparr>)
   \<and> fst (GetKeys (example_cacher (Some (example_Keys 40)) (example_Storage (example_Keys 200))))
     = (example_Keys 200, None)
   \<and> keys (snd (GetKeys
        (example_cacher (Some (example_Keys 40)) (example_Storage (example_Keys 200)))))
     = Some (example_Keys 200)
   \<and> keys (snd (GetKeys
        (example_cacher (Some (example_Keys 40)) (example_Storage (example_Keys 45)))))
     = Some (example_Keys 40)"
  using
    C1_GetKeys_cached_or_storage
      [of "example_cacher (Some (example_Keys 100)) (example_Storage (example_Keys 200))"
          "example_Keys 100" "example_Storage (example_Keys 200)"]
    C1_GetKeys_cached_or_storage
      [of "example_cacher (Some (example_Keys 40)) (example_Storage (example_Keys 200))"]
    C1_GetKeys_cached_or_storage
      [of "example_cacher (Some (example_Keys 40)) (example_Storage (example_Keys 45))"]
  by (simp add: example_cacher_def example_clock_def example_Keys_def example_Storage_def)

subsection \<open>The slot of the key cacher over a sequence of calls\<close>

lemma GetKeys_store_fresh:
  assumes "keys (snd (GetKeys k)) \<noteq> keys k"
  shows "keys (snd (GetKeys k)) = Some (fst (storage_GetKeys (Storage k)))
         \<and> now k (now_calls (snd (GetKeys k)) - 1) < NextRotation (fst (storage_GetKeys (Storage k)))"
  using assms
  by (auto simp: GetKeys_def GetKeys_from_storage_def call_now_def
      split: option.splits prod.splits if_splits)

lemma GetKeys_clock:
  "now (snd (GetKeys k)) = now k \<and> now_calls k \<le> now_calls (snd (GetKeys k))"
  by (auto simp: GetKeys_def GetKeys_from_storage_def call_now_def
      split: option.splits prod.splits if_splits)

lemma GetKeys_stale_step:
  assumes slot: "\<forall>c. keys k = Some c \<longrightarrow> (\<forall>n\<ge>now_calls k. NextRotation c \<le> now k n)"
    and stale: "\<forall>n\<ge>now_calls k. NextRotation (fst (storage_GetKeys st)) \<le> now k n"
  shows "fst (GetKeys (k\<lparr>Storage := st\<rparr>)) = storage_GetKeys st
         \<and> keys (snd (GetKeys (k\<lparr>Storage := st\<rparr>))) = keys k"
proof -
  let ?k = "k\<lparr>Storage := st\<rparr>"
  have miss: "\<not> (\<exists>c. keys ?k = Some c \<and> now ?k (now_calls ?k) < NextRotation c)"
    using slot by (auto simp: not_less)
  have r: "fst (GetKeys ?k) = storage_GetKeys st"
    using GetKeys_miss_result [OF miss] by simp
  have "NextRotation (fst (storage_GetKeys st)) \<le> now k (now_calls k)"
    and "NextRotation (fst (storage_GetKeys st)) \<le> now k (Suc (now_calls k))"
    using stale by simp_all
  then have "keys (snd (GetKeys ?k)) = keys k"
    using GetKeys_miss_slot [OF miss] by (auto simp: not_less)
  with r show ?thesis by simp
qed

lemma GetKeys_calls_stale:
  assumes "\<forall>c. keys k = Some c \<longrightarrow> (\<forall>n\<ge>now_calls k. NextRotation c \<le> now k n)"
    and "\<forall>st\<in>set sts. \<forall>n\<ge>now_calls k. NextRotation (fst (storage_GetKeys st)) \<le> now k n"
  shows "keys (GetKeys_calls k sts) = keys k
    \<and> (\<forall>i<length sts. \<forall>st'.
          fst (GetKeys ((GetKeys_calls k (take i sts))\<lparr>Storage := st'\<rparr>)) = storage_GetKeys st')"
  using assms
proof (induction sts arbitrary: k)
  case Nil
  then show ?case by simp
next
  case (Cons st sts)
  let ?k1 = "snd (GetKeys (k\<lparr>Storage := st\<rparr>))"
  have step: "fst (GetKeys (k\<lparr>Storage := st\<rparr>)) = storage_GetKeys st \<and> keys ?k1 = keys k"
    using GetKeys_stale_step [of k st] Cons.prems by simp
  have clk: "now ?k1 = now k" "now_calls k \<le> now_calls ?k1"
    using GetKeys_clock [of "k\<lparr>Storage := st\<rparr>"] by simp_all
  have slot1: "\<forall>c. keys ?k1 = Some c \<longrightarrow> (\<forall>n\<ge>now_calls ?k1. NextRotation c \<le> now ?k1 n)"
    using Cons.prems(1) step clk by (metis le_trans)
  have stale1: "\<forall>st\<in>set sts. \<forall>n\<ge>now_calls ?k1. NextRotation (fst (storage_GetKeys st)) \<le> now ?k1 n"
    using Cons.prems(2) clk by (metis le_trans list.set_intros(2))
  note IH = Cons.IH [OF slot1 stale1]
  have first: "\<forall>st'. fst (GetKeys (k\<lparr>Storage := st'\<rparr>)) = storage_GetKeys st'"
  proof
    fix st' :: storage_Storage
    have miss: "\<not> (\<exists>c. keys (k\<lparr>Storage := st'\<rparr>) = Some c
        \<and> now (k\<lparr>Storage := st'\<rparr>) (now_calls (k\<lparr>Storage := st'\<rparr>)) < NextRotation c)"
      using Cons.prems(1) by (auto simp: not_less)
    show "fst (GetKeys (k\<lparr>Storage := st'\<rparr>)) = storage_GetKeys st'"
      using GetKeys_miss_result [OF miss] by simp
  qed
  show ?case
  proof (intro conjI allI impI)
    show "keys (GetKeys_calls k (st # sts)) = keys k"
      using IH step by simp
  next
    fix i and st' :: storage_Storage
    assume "i < length (st # sts)"
    then show "fst (GetKeys ((GetKeys_calls k (take i (st # sts)))\<lparr>Storage := st'\<rparr>)) = storage_GetKeys st'"
      using first IH by (cases i) auto
  qed
qed


lemma GetKeys_stale_slot:
  assumes "\<forall>n\<ge>now_calls k. NextRotation (fst (storage_GetKeys st)) \<le> now k n"
  shows "keys (snd (GetKeys (k\<lparr>Storage := st\<rparr>))) = keys k"
proof -
  have "\<not> now k (now_calls k) < NextRotation (fst (storage_GetKeys st))"
    and "\<not> now k (Suc (now_calls k)) < NextRotation (fst (storage_GetKeys st))"
    using assms by (simp_all add: not_less)
  then show ?thesis
    by (auto simp: GetKeys_def GetKeys_from_storage_def call_now_def
        split: option.splits prod.splits)
qed

lemma GetKeys_calls_stale_slot:
  assumes "\<forall>st\<in>set sts. \<forall>n\<ge>now_calls k. NextRotation (fst (storage_GetKeys st)) \<le> now k n"
  shows "keys (GetKeys_calls k sts) = keys k"
  using assms
proof (induction sts arbitrary: k)
  case Nil
  then show ?case by simp
next
  case (Cons st sts)
  let ?k1 = "snd (GetKeys (k\<lparr>Storage := st\<rparr>))"
  have step: "keys ?k1 = keys k"
    using GetKeys_stale_slot [of k st] Cons.prems by simp
  have clk: "now ?k1 = now k" "now_calls k \<le> now_calls ?k1"
    using GetKeys_clock [of "k\<lparr>Storage := st\<rparr>"] by simp_all
  have "\<forall>st\<in>set sts. \<forall>n\<ge>now_calls ?k1. NextRotation (fst (storage_GetKeys st)) \<le> now ?k1 n"
    using Cons.prems clk by (metis le_trans list.set_intros(2))
  from Cons.IH [OF this] step show ?case by simp
qed

lemma GetKeys_calls_stale_slot_prefix:
  assumes "\<forall>st\<in>set sts. \<forall>n\<ge>now_calls k. NextRotation (fst (storage_GetKeys st)) \<le> now k n"
  shows "keys (GetKeys_calls k (take i sts)) = keys k"
proof -
  have "\<forall>st\<in>set (take i sts). \<forall>n\<ge>now_calls k.
      NextRotation (fst (storage_GetKeys st)) \<le> now k n"
    using assms by (meson in_set_takeD)
  then show ?thesis
    by (rule GetKeys_calls_stale_slot)
qed

text \<open>
  Claim C10, amended. The slot starts empty, and a call of \<^verbatim>\<open>GetKeys\<close> that changes the
  slot stores the keys it read from the storage, whose \<^verbatim>\<open>NextRotation\<close> is strictly after
  the clock reading the call took last, just before it stored them. Consequently, over
  every sequence of calls during which the storage returns keys whose \<^verbatim>\<open>NextRotation\<close>
  is at or before every clock reading to come, the slot is never written: the stale
  keys are not stored. If moreover the sequence starts with the slot empty, or holding
  keys that have expired in the same sense, every call returns what the storage
  returns, whatever that is: it falls through to the storage. The claim as stated
  promises this for a slot that still holds keys that rotate in the future as well;
  such a slot is served without reading the storage.
\<close>

theorem C10_slot_invariant_amended:
  "keys (newKeyCacher time_Now' s nw) = None
   \<and> (keys (snd (GetKeys ka)) \<noteq> keys ka \<longrightarrow>
        keys (snd (GetKeys ka)) = Some (fst (storage_GetKeys (Storage ka)))
        \<and> now ka (now_calls (snd (GetKeys ka)) - 1)
            < NextRotation (fst (storage_GetKeys (Storage ka))))
   \<and> ((\<forall>st\<in>set sts. \<forall>n\<ge>now_calls k. NextRotation (fst (storage_GetKeys st)) \<le> now k n)
      \<longrightarrow> (\<forall>i\<le>length sts. keys (GetKeys_calls k (take i sts)) = keys k)
        \<and> ((\<forall>c. keys k = Some c \<longrightarrow> (\<forall>n\<ge>now_calls k. NextRotation c \<le> now k n)) \<longrightarrow>
            (\<forall>i<length sts. \<forall>st'.
               fst (GetKeys ((GetKeys_calls k (take i sts))\<lparr>Storage := st'\<rparr>))
                 = storage_GetKeys st')))"
proof (intro conjI impI)
  show "keys (newKeyCacher time_Now' s nw) = None"
    by (simp add: newKeyCacher_def)
next
  assume "keys (snd (GetKeys ka)) \<noteq> keys ka"
  then show "keys (snd (GetKeys ka)) = Some (fst (storage_GetKeys (Storage ka)))"
    and "now ka (now_calls (snd (GetKeys ka)) - 1)
            < NextRotation (fst (storage_GetKeys (Storage ka)))"
    using GetKeys_store_fresh [of ka] by simp_all
next
  assume stale: "\<forall>st\<in>set sts. \<forall>n\<ge>now_calls k.
      NextRotation (fst (storage_GetKeys st)) \<le> now k n"
  then show "\<forall>i\<le>length sts. keys (GetKeys_calls k (take i sts)) = keys k"
    using GetKeys_calls_stale_slot_prefix by blast
  assume "\<forall>c. keys k = Some c \<longrightarrow> (\<forall>n\<ge>now_calls k. NextRotation c \<le> now k n)"
  with stale show "\<forall>i<length sts. \<forall>st'.
               fst (GetKeys ((GetKeys_calls k (take i sts))\<lparr>Storage := st'\<rparr>))
                 = storage_GetKeys st'"
    using GetKeys_calls_stale by blast
qed

text \<open>
  Claim C10 as stated fails. A new cacher reads keys that rotate at 100 when the clock
  reads 10, and stores them. From then on the clock reads 50 and the storage returns
  keys that rotated at 40: the next two calls do not fall through to the storage, they
  return the keys of the slot.
\<close>

theorem C10_fresh_slot_counterexample:
  "keys (GetKeys_calls example_new_cacher [example_Storage (example_Keys 100)])
     = Some (example_Keys 100)
   \<and> example_clock 0 < NextRotation (example_Keys 100)
   \<and> storage_GetKeys (example_Storage (example_Keys 40)) = (example_Keys 40, None)
   \<and> NextRotation (example_Keys 40) \<le> example_clock 1
   \<and> NextRotation (example_Keys 40) \<le> example_clock 2
   \<and> fst (GetKeys
        ((GetKeys_calls example_new_cacher [example_Storage (example_Keys 100)])
           \<lparr>Storage := example_Storage (example_Keys 40)\<rparr>))
     = (example_Keys 100, None)
   \<and> fst (GetKeys
        ((GetKeys_calls example_new_cacher
            [example_Storage (example_Keys 100), example_Storage (example_Keys 40)])
           \<lparr>Storage := example_Storage (example_Keys 40)\<rparr>))
     = (example_Keys 100, None)
   \<and> (example_Keys 100, None) \<noteq> storage_GetKeys (example_Storage (example_Keys 40))"
  by (simp add: example_new_cacher_def newKeyCacher_def example_clock_def example_Keys_def
      example_Storage_def GetKeys_def GetKeys_from_storage_def call_now_def)

text \<open>
  The amended theorem at cachers whose clock reads 50 from now on: a call that finds
  expired keys in the slot and keys that rotate at 200 in the storage stores the
  latter; two calls that find keys that rotated at 40 and at 45 in the storage leave
  alone a slot with keys that rotate at 100; with keys that rotated at 40 in the
  slot, the second of these calls returns what the storage holds.
\<close>

theorem C10_slot_invariant_amended_witness:
  "keys (snd (GetKeys
       (example_cacher (Some (example_Keys 40)) (example_Storage (example_Keys 200)))))
     = Some (example_Keys 200)
   \<and> example_clock 1 < NextRotation (example_Keys 200)
   \<and> keys (GetKeys_calls
       (example_cacher (Some (example_Keys 100)) (example_Storage (example_Keys 40)))
       [example_Storage (example_Keys 40), example_Storage (example_Keys 45)])
     = Some (example_Keys 100)
   \<and> fst (GetKeys
       ((GetKeys_calls
           (example_cacher (Some (example_Keys 40)) (example_Storage (example_Keys 40)))
           [example_Storage (example_Keys 40)])
          \<lparr>Storage := example_Storage (example_Keys 45)\<rparr>))
     = (example_Keys 45, None)"
proof -
  let ?k = "example_cacher (Some (example_Keys 40)) (example_Storage (example_Keys 40))"
  let ?kf = "example_cacher (Some (example_Keys 100)) (example_Storage (example_Keys 40))"
  let ?ka = "example_cacher (Some (example_Keys 40)) (example_Storage (example_Keys 200))"
  let ?sts = "[example_Storage (example_Keys 40), example_Storage (example_Keys 45)]"
  note t = C10_slot_invariant_amended
    [where time_Now' = example_clock and s = "example_Storage (example_Keys 40)"
       and nw = None and ka = ?ka and sts = ?sts]
  have changed: "keys (snd (GetKeys ?ka)) \<noteq> keys ?ka"
    by (simp add: example_cacher_def example_clock_def example_Keys_def example_Storage_def
        GetKeys_def GetKeys_from_storage_def call_now_def)
  have calls: "now_calls (snd (GetKeys ?ka)) = 3"
    by (simp add: example_cacher_def example_clock_def example_Keys_def example_Storage_def
        GetKeys_def GetKeys_from_storage_def call_now_def)
  have fresh: "keys (snd (GetKeys ?ka)) = Some (example_Keys 200)
      \<and> example_clock 1 < NextRotation (example_Keys 200)"
    using t [where k = ?k] changed calls
    by (simp add: example_cacher_def example_clock_def example_Keys_def example_Storage_def)
  have stale: "\<forall>st\<in>set ?sts. \<forall>n\<ge>now_calls ?k.
      NextRotation (fst (storage_GetKeys st)) \<le> now ?k n"
    by (simp add: example_cacher_def example_clock_def example_Keys_def example_Storage_def)
  have stalef: "\<forall>st\<in>set ?sts. \<forall>n\<ge>now_calls ?kf.
      NextRotation (fst (storage_GetKeys st)) \<le> now ?kf n"
    by (simp add: example_cacher_def example_clock_def example_Keys_def example_Storage_def)
  have slot: "\<forall>c. keys ?k = Some c \<longrightarrow> (\<forall>n\<ge>now_calls ?k. NextRotation c \<le> now ?k n)"
    by (simp add: example_cacher_def example_clock_def example_Keys_def)
  from t [where k = ?kf] stalef
  have "\<forall>i\<le>length ?sts. keys (GetKeys_calls ?kf (take i ?sts)) = keys ?kf"
    by blast
  from this [rule_format, of 2]
  have a: "keys (GetKeys_calls ?kf ?sts) = Some (example_Keys 100)"
    by (simp add: example_cacher_def)
  from t [where k = ?k] stale slot
  have "\<forall>i<length ?sts. \<forall>st'.
      fst (GetKeys ((GetKeys_calls ?k (take i ?sts))\<lparr>Storage := st'\<rparr>)) = storage_GetKeys st'"
    by blast
  from this [rule_format, of 1 "example_Storage (example_Keys 45)"]
  have b: "fst (GetKeys
       ((GetKeys_calls ?k [example_Storage (example_Keys 40)])
          \<lparr>Storage := example_Storage (example_Keys 45)\<rparr>))
     = (example_Keys 45, None)"
    by (simp add: example_Storage_def)
  from fresh a b show ?thesis by simp
qed

subsection \<open>The local password connector\<close>

text \<open>
  The cost check as the spec gives it: a hash whose cost is below 4 or above 16 is
  refused, a hash whose cost is from 4 to 16 passes.
\<close>

lemma checkCost_out_of_range:
  assumes "bcrypt_Cost bc hash = (cost, None)" and "cost < 4 \<or> 16 < cost"
  shows "checkCost bc hash
    = Some (fmt_Errorf ''hash cost = %d is outside the range [4, 16]'' [ArgI cost])"
  using assms by (auto simp: checkCost_def)

lemma checkCost_in_range:
  assumes "bcrypt_Cost bc hash = (cost, None)" and "4 \<le> cost" and "cost \<le> 16"
  shows "checkCost bc hash = None"
  using assms by (auto simp: checkCost_def)

text \<open>
  Claim C4. When the storage holds a password record for the email and the cost of
  its hash is below 4 or above 16, \<^verbatim>\<open>Login\<close> returns the zero identity, \<open>False\<close> and the
  cost-out-of-range error of \<^verbatim>\<open>checkCost\<close>, not a nil error; and it returns this whatever
  function \<open>compare\<close> stands for \<^verbatim>\<open>bcrypt.CompareHashAndPassword\<close>: the comparison is not
  performed.
\<close>

theorem C4_Login_cost_out_of_range:
  assumes "GetPassword (db_s db) email = (p, None)"
    and "bcrypt_Cost bc (p_Hash p) = (cost, None)"
    and "cost < 4 \<or> 16 < cost"
  shows "Login (bc\<lparr>CompareHashAndPassword := compare\<rparr>) db email password
    = (Identity_zero, False,
       Some (fmt_Errorf ''hash cost = %d is outside the range [4, 16]'' [ArgI cost]))"
proof -
  have "checkCost (bc\<lparr>CompareHashAndPassword := compare\<rparr>) (p_Hash p)
    = Some (fmt_Errorf ''hash cost = %d is outside the range [4, 16]'' [ArgI cost])"
    using assms(2,3) by (intro checkCost_out_of_range) simp_all
  then show ?thesis
    using assms(1) by (simp add: Login_def)
qed

text \<open>
  The theorem for a hash of cost 20, with a comparison that would accept every
  password.
\<close>

theorem C4_Login_cost_out_of_range_witness:
  "Login ((example_bcrypt 20)\<lparr>CompareHashAndPassword := (\<lambda>hash password. None)\<rparr>)
     example_passwordDB ''a@b.c'' ''hunter2''
    = (Identity_zero, False,
       Some (fmt_Errorf ''hash cost = %d is outside the range [4, 16]'' [ArgI 20]))"
  using C4_Login_cost_out_of_range [of example_passwordDB "''a@b.c''" example_Password
      "example_bcrypt 20" 20 "\<lambda>hash password. None" "''hunter2''"]
  by (simp add: example_passwordDB_def example_bcrypt_def example_Storage_def)

text \<open>
  Claim C5. \<^verbatim>\<open>Login\<close> with an email for which the storage answers \<^verbatim>\<open>ErrNotFound\<close>, and
  \<^verbatim>\<open>Login\<close> with the email of a stored user whose hash passes the cost check (by the
  spec, a hash with a cost from 4 to 16) and does not match the password, return the
  same triple: the zero identity, \<open>False\<close> and a nil error.
\<close>

theorem C5_Login_failure_opaque:
  "(GetPassword (db_s db) email = (p, Some ErrNotFound) \<longrightarrow>
      Login bc db email password = (Identity_zero, False, None))
   \<and> (GetPassword (db_s db) email' = (p', None)
        \<and> checkCost bc (p_Hash p') = None
        \<and> CompareHashAndPassword bc (p_Hash p') password' \<noteq> None \<longrightarrow>
      Login bc db email' password' = (Identity_zero, False, None))"
  by (auto simp: Login_def)

text \<open>
  The theorem for an unknown email and for the stored user, whose hash has cost 10,
  with a wrong password.
\<close>

theorem C5_Login_failure_opaque_witness:
  "Login (example_bcrypt 10) example_passwordDB ''nobody@b.c'' ''hunter2''
     = (Identity_zero, False, None)
   \<and> Login (example_bcrypt 10) example_passwordDB ''a@b.c'' ''wrong''
     = (Identity_zero, False, None)"
proof -
  have "bcrypt_Cost (example_bcrypt 10) (p_Hash example_Password) = (10, None)"
    by (simp add: example_bcrypt_def)
  then have "checkCost (example_bcrypt 10) (p_Hash example_Password) = None"
    by (rule checkCost_in_range) simp_all
  then show ?thesis
    using C5_Login_failure_opaque [of example_passwordDB "''nobody@b.c''" Password_zero
      "example_bcrypt 10" "''hunter2''" "''a@b.c''" example_Password "''wrong''"]
    by (simp add: example_passwordDB_def example_bcrypt_def example_Storage_def
        example_Password_def)
qed

text \<open>
  Claim C9. \<^verbatim>\<open>Refresh\<close> returns the error \<^verbatim>\<open>user not found\<close> when the storage answers
  \<^verbatim>\<open>ErrNotFound\<close> for the email of the identity, and when it holds a record whose
  \<^verbatim>\<open>UserID\<close> is not that of the identity. When \<^verbatim>\<open>Refresh\<close> returns a nil error, the
  storage held a record with the \<^verbatim>\<open>UserID\<close> of the identity, and the identity returned
  is the one presented with \<^verbatim>\<open>Username\<close> set to the stored user name: every other field
  is as presented.
\<close>

theorem C9_Refresh_user_not_found_or_username:
  "(GetPassword (db_s db) (Email identity) = (p, Some ErrNotFound) \<longrightarrow>
      Refresh db identity = (Identity_zero, Some (errors_New ''user not found'')))
   \<and> (GetPassword (db_s db) (Email identity) = (p, None) \<and> p_UserID p \<noteq> UserID identity \<longrightarrow>
      Refresh db identity = (Identity_zero, Some (errors_New ''user not found'')))
   \<and> (Refresh db identity = (refreshed, None)
        \<and> GetPassword (db_s db) (Email identity) = (p, err) \<longrightarrow>
      err = None \<and> p_UserID p = UserID identity
      \<and> refreshed = identity\<lparr>Username := p_Username p\<rparr>
      \<and> UserID refreshed = UserID identity
      \<and> PreferredUsername refreshed = PreferredUsername identity
      \<and> Email refreshed = Email identity
      \<and> EmailVerified refreshed = EmailVerified identity
      \<and> Groups refreshed = Groups identity)"
  by (auto simp: Refresh_def split: prod.splits option.splits if_splits)

text \<open>
  The theorem for an identity whose user is gone, for one whose email now belongs to
  another user, and for the stored user, whose user name changed from \<^verbatim>\<open>al\<close> to
  \<^verbatim>\<open>alice\<close>.
\<close>

theorem C9_Refresh_user_not_found_or_username_witness:
  "Refresh example_passwordDB (example_Identity\<lparr>Email := ''gone@b.c''\<rparr>)
     = (Identity_zero, Some (errors_New ''user not found''))
   \<and> Refresh example_passwordDB (example_Identity\<lparr>UserID := ''u2''\<rparr>)
     = (Identity_zero, Some (errors_New ''user not found''))
   \<and> Refresh example_passwordDB example_Identity
     = (\<lparr>UserID = ''u1'', Username = ''alice'', PreferredUsername = ''ally'',
         Email = ''a@b.c'', EmailVerified = True, Groups = [''staff'']\<rparr>, None)"
proof -
  have ok: "Refresh example_passwordDB example_Identity
      = (fst (Refresh example_passwordDB example_Identity), None)"
    by (simp add: Refresh_def example_passwordDB_def example_Identity_def example_Password_def)
  have "fst (Refresh example_passwordDB example_Identity)
      = example_Identity\<lparr>Username := p_Username example_Password\<rparr>"
    using ok
      C9_Refresh_user_not_found_or_username
        [of example_passwordDB example_Identity example_Password
            "fst (Refresh example_passwordDB example_Identity)" None]
    by (simp add: example_passwordDB_def example_Identity_def)
  then have "Refresh example_passwordDB example_Identity
      = (example_Identity\<lparr>Username := p_Username example_Password\<rparr>, None)"
    using ok by simp
  then show ?thesis
    using
      C9_Refresh_user_not_found_or_username
        [of example_passwordDB "example_Identity\<lparr>Email := ''gone@b.c''\<rparr>" Password_zero]
      C9_Refresh_user_not_found_or_username
        [of example_passwordDB "example_Identity\<lparr>UserID := ''u2''\<rparr>" example_Password]
    by (simp add: example_passwordDB_def example_Identity_def example_Password_def)
qed

subsection \<open>The connector map\<close>

lemma OpenConnector_failed:
  assumes "OpenConnector env srv conn = ((c, Some e), srv')"
  shows "srv' = srv \<and> c = Connector_zero
    \<and> conn_Type conn \<noteq> LocalConnector
    \<and> (\<exists>e'. snd (openConnector env conn) = Some e'
            \<and> e = fmt_Errorf ''failed to open connector: %v'' [ArgE e'])"
  using assms
  by (auto simp: OpenConnector_def Let_def split: if_splits prod.splits option.splits)

lemma OpenConnector_opened:
  assumes "OpenConnector env srv conn = ((c, None), srv')"
  shows "ResourceVersion c = conn_ResourceVersion conn
    \<and> srv' = srv\<lparr>connectors := (connectors srv)(conn_ID conn \<mapsto> c)\<rparr>"
  using assms
  by (auto simp: OpenConnector_def Let_def split: if_splits prod.splits option.splits)

lemma openConnector_unknown_type:
  assumes "ConnectorsConfig (conn_Type conn) = None"
  shows "openConnector env conn
    = (None, Some (fmt_Errorf ''unknown connector type %q'' [ArgS (conn_Type conn)]))"
  using assms by (simp add: openConnector_def)

lemma openConnector_parse_failed:
  assumes "ConnectorsConfig (conn_Type conn) = Some f"
    and "conn_Config conn \<noteq> []"
    and "json_Unmarshal env (conn_Config conn) (new_Config env f) = (cfg, Some e)"
  shows "openConnector env conn
    = (None, Some (fmt_Errorf ''parse connector config: %v'' [ArgE e]))"
  using assms by (simp add: openConnector_def)

lemma openConnector_Open_failed:
  assumes "ConnectorsConfig (conn_Type conn) = Some f"
    and "conn_Config conn = [] \<and> cfg = new_Config env f
         \<or> conn_Config conn \<noteq> []
           \<and> json_Unmarshal env (conn_Config conn) (new_Config env f) = (cfg, None)"
    and "cfg_Open env cfg (conn_ID conn) = (c, Some e)"
  shows "openConnector env conn
    = (map_option opened c,
       Some (fmt_Errorf ''failed to create connector %s: %v'' [ArgS (conn_ID conn), ArgE e]))"
  using assms by (auto simp: openConnector_def)

lemma OpenConnector_not_opened:
  assumes "conn_Type conn \<noteq> LocalConnector" and "openConnector env conn = (c, Some e)"
  shows "OpenConnector env srv conn
    = ((Connector_zero, Some (fmt_Errorf ''failed to open connector: %v'' [ArgE e])), srv)"
  using assms by (simp add: OpenConnector_def)

lemmas openConnector_defs =
  openConnector_def ConnectorsConfig_def example_deps_def example_Connector_def

text \<open>
  Claim C8. \<^verbatim>\<open>openConnector\<close> returns an error for a stored record whose type is no key
  of \<^verbatim>\<open>ConnectorsConfig\<close>; for one of a known type whose config is not empty and does
  not parse into the config struct of the type; and for one of a known type whose
  config struct (the zero struct when the config is empty, the parsed one otherwise)
  does not open. When \<^verbatim>\<open>openConnector\<close> returns an error for a record whose type is not
  \<^verbatim>\<open>local\<close>, \<^verbatim>\<open>OpenConnector\<close> returns the zero \<^verbatim>\<open>Connector\<close> and an error, and leaves
  the server, its connector map included, as it was.
\<close>

theorem C8_openConnector_errors:
  "(ConnectorsConfig (conn_Type conn) = None \<longrightarrow>
      openConnector env conn
        = (None, Some (fmt_Errorf ''unknown connector type %q'' [ArgS (conn_Type conn)])))
   \<and> (ConnectorsConfig (conn_Type conn) = Some f \<and> conn_Config conn \<noteq> []
        \<and> json_Unmarshal env (conn_Config conn) (new_Config env f) = (cfg, Some pe) \<longrightarrow>
      openConnector env conn
        = (None, Some (fmt_Errorf ''parse connector config: %v'' [ArgE pe])))
   \<and> (ConnectorsConfig (conn_Type conn) = Some f
        \<and> (conn_Config conn = [] \<and> cfg' = new_Config env f
            \<or> conn_Config conn \<noteq> []
              \<and> json_Unmarshal env (conn_Config conn) (new_Config env f) = (cfg', None))
        \<and> cfg_Open env cfg' (conn_ID conn) = (c, Some oe) \<longrightarrow>
      openConnector env conn
        = (map_option opened c,
           Some (fmt_Errorf ''failed to create connector %s: %v''
                   [ArgS (conn_ID conn), ArgE oe])))
   \<and> (conn_Type conn \<noteq> LocalConnector \<and> openConnector env conn = (c', Some e) \<longrightarrow>
      OpenConnector env srv conn
        = ((Connector_zero, Some (fmt_Errorf ''failed to open connector: %v'' [ArgE e])), srv))"
  using openConnector_unknown_type [of conn env]
    openConnector_parse_failed [of conn f env cfg pe]
    openConnector_Open_failed [of conn f cfg' env c oe]
    OpenConnector_not_opened [of conn env c' e srv]
  by blast

text \<open>
  The theorem for a record of the unknown type \<^verbatim>\<open>bogus\<close>, for \<^verbatim>\<open>ldap\<close> records whose
  config does not parse or does not open, and for \<^verbatim>\<open>OpenConnector\<close> on the record that
  does not parse.
\<close>

theorem C8_openConnector_errors_witness:
  "openConnector example_deps (example_Connector ''bogus'' ''2'' [])
     = (None, Some (fmt_Errorf ''unknown connector type %q'' [ArgS ''bogus'']))
   \<and> openConnector example_deps (example_Connector ''ldap'' ''2'' ''{'')
     = (None, Some (fmt_Errorf ''parse connector config: %v''
                      [ArgE (errors_New ''unexpected end of JSON input'')]))
   \<and> openConnector example_deps (example_Connector ''ldap'' ''2'' ''{host: unreachable}'')
     = (None, Some (fmt_Errorf ''failed to create connector %s: %v''
                      [ArgS ''c1'', ArgE (errors_New ''dial failed'')]))
   \<and> OpenConnector example_deps (example_Server (example_Connector ''ldap'' ''2'' ''{''))
        (example_Connector ''ldap'' ''2'' ''{'')
     = ((Connector_zero,
         Some (fmt_Errorf ''failed to open connector: %v''
           [ArgE (fmt_Errorf ''parse connector config: %v''
              [ArgE (errors_New ''unexpected end of JSON input'')])])),
        example_Server (example_Connector ''ldap'' ''2'' ''{''))"
proof -
  note t = C8_openConnector_errors [where env = example_deps]
  have 1: "openConnector example_deps (example_Connector ''bogus'' ''2'' [])
     = (None, Some (fmt_Errorf ''unknown connector type %q'' [ArgS ''bogus'']))"
    using t [where conn = "example_Connector ''bogus'' ''2'' []"]
    by (simp add: ConnectorsConfig_def example_Connector_def)
  have 2: "openConnector example_deps (example_Connector ''ldap'' ''2'' ''{'')
     = (None, Some (fmt_Errorf ''parse connector config: %v''
                      [ArgE (errors_New ''unexpected end of JSON input'')]))"
    using t [where conn = "example_Connector ''ldap'' ''2'' ''{''" and f = ldap_Config
        and cfg = "[]" and pe = "errors_New ''unexpected end of JSON input''"]
    by (simp add: ConnectorsConfig_def example_Connector_def example_deps_def)
  have 3: "openConnector example_deps (example_Connector ''ldap'' ''2'' ''{host: unreachable}'')
     = (None, Some (fmt_Errorf ''failed to create connector %s: %v''
                      [ArgS ''c1'', ArgE (errors_New ''dial failed'')]))"
    using t [where conn = "example_Connector ''ldap'' ''2'' ''{host: unreachable}''"
        and f = ldap_Config and cfg' = "''{host: unreachable}''" and c = None
        and oe = "errors_New ''dial failed''"]
    by (simp add: ConnectorsConfig_def example_Connector_def example_deps_def)
  have 4: "OpenConnector example_deps (example_Server (example_Connector ''ldap'' ''2'' ''{''))
        (example_Connector ''ldap'' ''2'' ''{'')
     = ((Connector_zero,
         Some (fmt_Errorf ''failed to open connector: %v''
           [ArgE (fmt_Errorf ''parse connector config: %v''
              [ArgE (errors_New ''unexpected end of JSON input'')])])),
        example_Server (example_Connector ''ldap'' ''2'' ''{''))"
    using 2 t [where conn = "example_Connector ''ldap'' ''2'' ''{''" and c' = None
        and e = "fmt_Errorf ''parse connector config: %v''
              [ArgE (errors_New ''unexpected end of JSON input'')]"
        and srv = "example_Server (example_Connector ''ldap'' ''2'' ''{'')"]
    by (simp add: example_Connector_def LocalConnector_def)
  from 1 2 3 4 show ?thesis by simp
qed

lemma getConnector_in_memory:
  assumes "GetConnector (Storage (storage srv)) i = (sc, None)"
    and "connectors srv i = Some c"
    and "ResourceVersion c = conn_ResourceVersion sc"
  shows "getConnector env srv i = ((c, None), srv)"
  using assms by (simp add: getConnector_def)

lemma getConnector_reopen:
  assumes "GetConnector (Storage (storage srv)) i = (sc, None)"
    and "connectors srv i = None
         \<or> (\<exists>c. connectors srv i = Some c \<and> ResourceVersion c \<noteq> conn_ResourceVersion sc)"
  shows "getConnector env srv i =
     (case OpenConnector env srv sc of
        ((c', Some e), srv') \<Rightarrow>
          ((Connector_zero, Some (fmt_Errorf ''failed to open connector: %v'' [ArgE e])), srv')
      | ((c', None), srv') \<Rightarrow> ((c', None), srv'))"
  using assms
  by (auto simp: getConnector_def split: prod.splits option.splits)

text \<open>
  Claim C3, amended. Let the storage return the record \<open>sc\<close> for the id. When the
  connector map has an entry for the id with the \<^verbatim>\<open>ResourceVersion\<close> of \<open>sc\<close>,
  \<^verbatim>\<open>getConnector\<close> returns that entry and changes nothing. When the map has no entry
  for the id, or one with another \<^verbatim>\<open>ResourceVersion\<close>, \<^verbatim>\<open>getConnector\<close> calls
  \<^verbatim>\<open>OpenConnector\<close> on \<open>sc\<close>: if that succeeds, the connector returned is the new one,
  it has the \<^verbatim>\<open>ResourceVersion\<close> of \<open>sc\<close>, and it is the entry of the map under the ID of
  \<open>sc\<close>; if that fails, \<^verbatim>\<open>getConnector\<close> returns an error and the server, its map
  included, is as it was. The claim as stated promises a replaced entry in this last
  case too.
\<close>

theorem C3_getConnector_amended:
  "(GetConnector (Storage (storage srv)) i = (sc, None)
      \<and> connectors srv i = Some c \<and> ResourceVersion c = conn_ResourceVersion sc \<longrightarrow>
      getConnector env srv i = ((c, None), srv))
   \<and> (GetConnector (Storage (storage srv)) i = (sc, None)
      \<and> (connectors srv i = None
          \<or> (\<exists>c. connectors srv i = Some c \<and> ResourceVersion c \<noteq> conn_ResourceVersion sc))
      \<and> OpenConnector env srv sc = ((c', None), srv') \<longrightarrow>
      getConnector env srv i = ((c', None), srv')
      \<and> ResourceVersion c' = conn_ResourceVersion sc
      \<and> srv' = srv\<lparr>connectors := (connectors srv)(conn_ID sc \<mapsto> c')\<rparr>)
   \<and> (GetConnector (Storage (storage srv)) i = (sc, None)
      \<and> (connectors srv i = None
          \<or> (\<exists>c. connectors srv i = Some c \<and> ResourceVersion c \<noteq> conn_ResourceVersion sc))
      \<and> OpenConnector env srv sc = ((c', Some e), srv') \<longrightarrow>
      getConnector env srv i
        = ((Connector_zero, Some (fmt_Errorf ''failed to open connector: %v'' [ArgE e])), srv))"
proof (intro conjI impI)
  assume "GetConnector (Storage (storage srv)) i = (sc, None)
      \<and> connectors srv i = Some c \<and> ResourceVersion c = conn_ResourceVersion sc"
  then show "getConnector env srv i = ((c, None), srv)"
    using getConnector_in_memory by blast
next
  assume h: "GetConnector (Storage (storage srv)) i = (sc, None)
      \<and> (connectors srv i = None
          \<or> (\<exists>c. connectors srv i = Some c \<and> ResourceVersion c \<noteq> conn_ResourceVersion sc))
      \<and> OpenConnector env srv sc = ((c', None), srv')"
  then show "getConnector env srv i = ((c', None), srv')"
    using getConnector_reopen [of srv i sc env] by simp
  from h show "ResourceVersion c' = conn_ResourceVersion sc"
    and "srv' = srv\<lparr>connectors := (connectors srv)(conn_ID sc \<mapsto> c')\<rparr>"
    using OpenConnector_opened [of env srv sc c' srv'] by simp_all
next
  assume h: "GetConnector (Storage (storage srv)) i = (sc, None)
      \<and> (connectors srv i = None
          \<or> (\<exists>c. connectors srv i = Some c \<and> ResourceVersion c \<noteq> conn_ResourceVersion sc))
      \<and> OpenConnector env srv sc = ((c', Some e), srv')"
  then have "srv' = srv"
    using OpenConnector_failed [of env srv sc c' e srv'] by simp
  with h show "getConnector env srv i
        = ((Connector_zero, Some (fmt_Errorf ''failed to open connector: %v'' [ArgE e])), srv)"
    using getConnector_reopen [of srv i sc env] by simp
qed

text \<open>
  Claim C3 as stated fails. The map holds an instance of \<^verbatim>\<open>c1\<close> opened at resource
  version 1; the storage holds the record of \<^verbatim>\<open>c1\<close> at version 2, with a config that
  does not parse. The versions differ, and \<^verbatim>\<open>getConnector\<close> returns an error and leaves
  the entry of \<^verbatim>\<open>c1\<close> as it was: it is not replaced.
\<close>

theorem C3_getConnector_not_replaced_counterexample:
  "GetConnector (Storage (storage (example_Server (example_Connector ''ldap'' ''2'' ''{'')))) ''c1''
     = (example_Connector ''ldap'' ''2'' ''{'', None)
   \<and> connectors (example_Server (example_Connector ''ldap'' ''2'' ''{'')) ''c1''
     = Some \<lparr>ResourceVersion = ''1'', Connector = Some (opened ''c1 {host: a}'')\<rparr>
   \<and> conn_ResourceVersion (example_Connector ''ldap'' ''2'' ''{'') \<noteq> ''1''
   \<and> getConnector example_deps (example_Server (example_Connector ''ldap'' ''2'' ''{'')) ''c1''
     = ((Connector_zero,
         Some (fmt_Errorf ''failed to open connector: %v''
           [ArgE (fmt_Errorf ''failed to open connector: %v''
              [ArgE (fmt_Errorf ''parse connector config: %v''
                 [ArgE (errors_New ''unexpected end of JSON input'')])])])),
        example_Server (example_Connector ''ldap'' ''2'' ''{''))"
  by (simp add: example_Server_def example_Connector_def example_deps_def newKeyCacher_def
      getConnector_def OpenConnector_def openConnector_def ConnectorsConfig_def
      LocalConnector_def)

text \<open>
  The amended theorem for the stored record at version 1 (the entry is returned), at
  version 2 with a config that opens (the entry is replaced by the new instance) and
  at version 2 with a config that does not parse (an error, the server unchanged).
\<close>

theorem C3_getConnector_amended_witness:
  "getConnector example_deps (example_Server (example_Connector ''ldap'' ''1'' ''{host: b}'')) ''c1''
     = ((\<lparr>ResourceVersion = ''1'', Connector = Some (opened ''c1 {host: a}'')\<rparr>, None),
        example_Server (example_Connector ''ldap'' ''1'' ''{host: b}''))
   \<and> getConnector example_deps (example_Server (example_Connector ''ldap'' ''2'' ''{host: b}'')) ''c1''
     = ((\<lparr>ResourceVersion = ''2'', Connector = Some (opened ''c1 {host: b}'')\<rparr>, None),
        (example_Server (example_Connector ''ldap'' ''2'' ''{host: b}''))
          \<lparr>connectors :=
             [''c1'' \<mapsto> \<lparr>ResourceVersion = ''2'', Connector = Some (opened ''c1 {host: b}'')\<rparr>]\<rparr>)
   \<and> getConnector example_deps (example_Server (example_Connector ''ldap'' ''2'' ''{'')) ''c1''
     = ((Connector_zero,
         Some (fmt_Errorf ''failed to open connector: %v''
           [ArgE (fmt_Errorf ''failed to open connector: %v''
              [ArgE (fmt_Errorf ''parse connector config: %v''
                 [ArgE (errors_New ''unexpected end of JSON input'')])])])),
        example_Server (example_Connector ''ldap'' ''2'' ''{''))"
proof -
  note t = C3_getConnector_amended [where env = example_deps and i = "''c1''"]
  let ?s1 = "example_Server (example_Connector ''ldap'' ''1'' ''{host: b}'')"
  let ?s2 = "example_Server (example_Connector ''ldap'' ''2'' ''{host: b}'')"
  let ?s3 = "example_Server (example_Connector ''ldap'' ''2'' ''{'')"
  let ?new = "\<lparr>ResourceVersion = ''2'', Connector = Some (opened ''c1 {host: b}'')\<rparr>"
  have 1: "getConnector example_deps ?s1 ''c1''
     = ((\<lparr>ResourceVersion = ''1'', Connector = Some (opened ''c1 {host: a}'')\<rparr>, None), ?s1)"
    using t [where srv = ?s1 and sc = "example_Connector ''ldap'' ''1'' ''{host: b}''"
        and c = "\<lparr>ResourceVersion = ''1'', Connector = Some (opened ''c1 {host: a}'')\<rparr>"]
    by (simp add: example_Server_def example_Connector_def newKeyCacher_def)
  have o2: "OpenConnector example_deps ?s2 (example_Connector ''ldap'' ''2'' ''{host: b}'')
     = ((?new, None), ?s2\<lparr>connectors := [''c1'' \<mapsto> ?new]\<rparr>)"
    by (simp add: OpenConnector_def LocalConnector_def openConnector_defs example_Server_def Let_def)
  have 2: "getConnector example_deps ?s2 ''c1''
     = ((?new, None), ?s2\<lparr>connectors := [''c1'' \<mapsto> ?new]\<rparr>)"
    using o2 t [where srv = ?s2 and sc = "example_Connector ''ldap'' ''2'' ''{host: b}''"
        and c' = ?new and srv' = "?s2\<lparr>connectors := [''c1'' \<mapsto> ?new]\<rparr>"]
    by (simp add: example_Server_def example_Connector_def newKeyCacher_def)
  have o3: "OpenConnector example_deps ?s3 (example_Connector ''ldap'' ''2'' ''{'')
     = ((Connector_zero,
         Some (fmt_Errorf ''failed to open connector: %v''
           [ArgE (fmt_Errorf ''parse connector config: %v''
              [ArgE (errors_New ''unexpected end of JSON input'')])])), ?s3)"
    by (simp add: OpenConnector_def LocalConnector_def openConnector_defs)
  have 3: "getConnector example_deps ?s3 ''c1''
     = ((Connector_zero,
         Some (fmt_Errorf ''failed to open connector: %v''
           [ArgE (fmt_Errorf ''failed to open connector: %v''
              [ArgE (fmt_Errorf ''parse connector config: %v''
                 [ArgE (errors_New ''unexpected end of JSON input'')])])])), ?s3)"
    using o3 t [where srv = ?s3 and sc = "example_Connector ''ldap'' ''2'' ''{''"
        and c' = Connector_zero and srv' = ?s3
        and e = "fmt_Errorf ''failed to open connector: %v''
           [ArgE (fmt_Errorf ''parse connector config: %v''
              [ArgE (errors_New ''unexpected end of JSON input'')])]"]
    by (simp add: example_Server_def example_Connector_def newKeyCacher_def)
  from 1 2 3 show ?thesis by simp
qed

subsection \<open>Constructing the server\<close>

lemma supported_loop_eq:
  "supported_loop types supported =
     (case find (\<lambda>t. t \<notin> {responseTypeCode, responseTypeIDToken, responseTypeToken}) types of
        Some t \<Rightarrow> Inl (fmt_Errorf ''unsupported response_type %q'' [ArgS t])
      | None \<Rightarrow> Inr (\<lambda>t. if t \<in> set types then Some True else supported t))"
  by (induction types arbitrary: supported) (auto simp: fun_eq_iff split: option.splits)

lemma OpenConnector_connectors_only:
  "\<exists>m. snd (OpenConnector env srv conn) = srv\<lparr>connectors := m\<rparr>"
proof (cases "fst (OpenConnector env srv conn)")
  case (Pair c err)
  show ?thesis
  proof (cases err)
    case None
    with Pair have "OpenConnector env srv conn = ((c, None), snd (OpenConnector env srv conn))"
      by (metis prod.collapse)
    from OpenConnector_opened [OF this] show ?thesis by blast
  next
    case (Some e)
    with Pair have "OpenConnector env srv conn = ((c, Some e), snd (OpenConnector env srv conn))"
      by (metis prod.collapse)
    from OpenConnector_failed [OF this] have "snd (OpenConnector env srv conn) = srv" by simp
    then have "snd (OpenConnector env srv conn) = srv\<lparr>connectors := connectors srv\<rparr>"
      by simp
    then show ?thesis by blast
  qed
qed

lemma OpenConnector_loop_connectors_only:
  "\<exists>m. snd (OpenConnector_loop env srv conns) = srv\<lparr>connectors := m\<rparr>"
proof (induction conns arbitrary: srv)
  case Nil
  have "srv = srv\<lparr>connectors := connectors srv\<rparr>" by simp
  then show ?case by (metis OpenConnector_loop.simps(1) snd_conv)
next
  case (Cons conn conns)
  obtain m where m: "snd (OpenConnector env srv conn) = srv\<lparr>connectors := m\<rparr>"
    using OpenConnector_connectors_only by blast
  obtain m' where m': "snd (OpenConnector_loop env (srv\<lparr>connectors := m\<rparr>) conns)
      = srv\<lparr>connectors := m, connectors := m'\<rparr>"
    using Cons.IH [of "srv\<lparr>connectors := m\<rparr>"] by blast
  show ?case
    using m m'
    by (cases "OpenConnector env srv conn")
      (auto split: prod.splits option.splits)
qed

lemma OpenConnector_loop_fields:
  assumes "OpenConnector_loop env srv conns = (e, srv')"
  shows "supportedResponseTypes srv' = supportedResponseTypes srv
    \<and> idTokensValidFor srv' = idTokensValidFor srv"
proof -
  obtain m where "snd (OpenConnector_loop env srv conns) = srv\<lparr>connectors := m\<rparr>"
    using OpenConnector_loop_connectors_only by blast
  with assms have "srv' = srv\<lparr>connectors := m\<rparr>" by simp
  then show ?thesis by simp
qed

lemma newServer_constructed:
  assumes "newServer env c rs = (Some srv, err, started)"
  shows "err = None
    \<and> supportedResponseTypes srv =
        (\<lambda>t. if t \<in> set (if SupportedResponseTypes c = [] then [responseTypeCode]
                          else SupportedResponseTypes c)
             then Some True else None)
    \<and> idTokensValidFor srv = value' (IDTokensValidFor c) (24 * time_Hour)
    \<and> started =
        [startKeyRotation rs (case Now c of None \<Rightarrow> time_Now env | Some f \<Rightarrow> f),
         startGarbageCollection (value' (GCFrequency c) (5 * time_Minute))
           (case Now c of None \<Rightarrow> time_Now env | Some f \<Rightarrow> f)]"
  using assms
  by (auto simp: newServer_def supported_loop_eq Let_def
      dest!: OpenConnector_loop_fields
      split: prod.splits option.splits if_splits sum.splits)

text \<open>
  Claim C7. When \<^verbatim>\<open>NewServer\<close> returns a server: its supported response types are
  \<^verbatim>\<open>code\<close> alone when the config lists none, and the listed ones otherwise; its
  \<^verbatim>\<open>idTokensValidFor\<close> is 24 hours when the config gives zero, and the configured
  duration otherwise; the key rotation is started with the default strategy for
  \<^verbatim>\<open>RotateKeysAfter\<close>, or 6 hours when that is zero, and for \<^verbatim>\<open>IDTokensValidFor\<close>, or 24
  hours when that is zero; the garbage collection is started with \<^verbatim>\<open>GCFrequency\<close>, or 5
  minutes when that is zero.
\<close>

theorem C7_NewServer_defaults:
  assumes "NewServer env c = (Some srv, err, started)"
  shows "supportedResponseTypes srv =
        (if SupportedResponseTypes c = [] then [''code'' \<mapsto> True]
         else (\<lambda>t. if t \<in> set (SupportedResponseTypes c) then Some True else None))
    \<and> idTokensValidFor srv =
        (if IDTokensValidFor c = 0 then 24 * time_Hour else IDTokensValidFor c)
    \<and> started =
        [startKeyRotation
           (defaultRotationStrategy
              (if RotateKeysAfter c = 0 then 6 * time_Hour else RotateKeysAfter c)
              (if IDTokensValidFor c = 0 then 24 * time_Hour else IDTokensValidFor c))
           (case Now c of None \<Rightarrow> time_Now env | Some f \<Rightarrow> f),
         startGarbageCollection
           (if GCFrequency c = 0 then 5 * time_Minute else GCFrequency c)
           (case Now c of None \<Rightarrow> time_Now env | Some f \<Rightarrow> f)]"
  using newServer_constructed [OF assms [unfolded NewServer_def]]
  by (auto simp: value'_def responseTypeCode_def fun_eq_iff)

lemmas example_defs =
  example_Config_def example_deps_def example_Storage_def example_Connector_def

lemmas newServer_defs =
  NewServer_def newServer_def OpenConnector_def openConnector_def
  ConnectorsConfig_def LocalConnector_def responseTypeCode_def responseTypeIDToken_def
  responseTypeToken_def Let_def

text \<open>
  The theorem for the config with zero values (24 hours are 86400000000000
  nanoseconds, 6 hours 21600000000000 and 5 minutes 300000000000), and for a config
  with two response types and the durations 7, -1 and 9.
\<close>

theorem C7_NewServer_defaults_witness:
  "fst (NewServer example_deps example_Config) \<noteq> None
   \<and> supportedResponseTypes (the (fst (NewServer example_deps example_Config)))
       = [''code'' \<mapsto> True]
   \<and> idTokensValidFor (the (fst (NewServer example_deps example_Config))) = 86400000000000
   \<and> snd (snd (NewServer example_deps example_Config))
       = [startKeyRotation
            \<lparr>rotationFrequency = 21600000000000, idTokenValidFor = 86400000000000\<rparr>
            example_clock,
          startGarbageCollection 300000000000 example_clock]
   \<and> fst (NewServer example_deps
        (example_Config\<lparr>SupportedResponseTypes := [''token'', ''code''], RotateKeysAfter := 7,
           IDTokensValidFor := - 1, GCFrequency := 9\<rparr>)) \<noteq> None
   \<and> supportedResponseTypes (the (fst (NewServer example_deps
        (example_Config\<lparr>SupportedResponseTypes := [''token'', ''code''], RotateKeysAfter := 7,
           IDTokensValidFor := - 1, GCFrequency := 9\<rparr>))))
       = [''token'' \<mapsto> True, ''code'' \<mapsto> True]
   \<and> idTokensValidFor (the (fst (NewServer example_deps
        (example_Config\<lparr>SupportedResponseTypes := [''token'', ''code''], RotateKeysAfter := 7,
           IDTokensValidFor := - 1, GCFrequency := 9\<rparr>)))) = - 1
   \<and> snd (snd (NewServer example_deps
        (example_Config\<lparr>SupportedResponseTypes := [''token'', ''code''], RotateKeysAfter := 7,
           IDTokensValidFor := - 1, GCFrequency := 9\<rparr>)))
       = [startKeyRotation \<lparr>rotationFrequency = 7, idTokenValidFor = - 1\<rparr> example_clock,
          startGarbageCollection 9 example_clock]"
proof -
  let ?c = "example_Config\<lparr>SupportedResponseTypes := [''token'', ''code''],
    RotateKeysAfter := 7, IDTokensValidFor := - 1, GCFrequency := 9\<rparr>"
  obtain srv where a: "fst (NewServer example_deps example_Config) = Some srv"
    by (simp add: example_defs newServer_defs)
  obtain srv' where b: "fst (NewServer example_deps ?c) = Some srv'"
    by (simp add: example_defs newServer_defs)
  have a': "NewServer example_deps example_Config
      = (Some srv, fst (snd (NewServer example_deps example_Config)),
         snd (snd (NewServer example_deps example_Config)))"
    using a by (metis prod.collapse)
  have b': "NewServer example_deps ?c
      = (Some srv', fst (snd (NewServer example_deps ?c)), snd (snd (NewServer example_deps ?c)))"
    using b by (metis prod.collapse)
  have "supportedResponseTypes srv = [''code'' \<mapsto> True]
      \<and> idTokensValidFor srv = 86400000000000
      \<and> snd (snd (NewServer example_deps example_Config))
       = [startKeyRotation
            \<lparr>rotationFrequency = 21600000000000, idTokenValidFor = 86400000000000\<rparr>
            example_clock,
          startGarbageCollection 300000000000 example_clock]"
    using C7_NewServer_defaults [OF a']
    by (simp add: example_Config_def defaultRotationStrategy_def time_Hour_def time_Minute_def)
  moreover
  have "supportedResponseTypes srv' = [''token'' \<mapsto> True, ''code'' \<mapsto> True]
      \<and> idTokensValidFor srv' = - 1
      \<and> snd (snd (NewServer example_deps ?c))
       = [startKeyRotation \<lparr>rotationFrequency = 7, idTokenValidFor = - 1\<rparr> example_clock,
          startGarbageCollection 9 example_clock]"
    using C7_NewServer_defaults [OF b']
    by (auto simp: example_Config_def defaultRotationStrategy_def fun_eq_iff)
  ultimately show ?thesis
    using a b by simp
qed

lemma newServer_unsupported:
  assumes "find (\<lambda>x. x \<notin> {responseTypeCode, responseTypeIDToken, responseTypeToken})
             (SupportedResponseTypes c) = Some t"
  shows "newServer env c rs =
     (if snd (url_Parse env (Issuer c)) \<noteq> None
      then (None, Some (fmt_Errorf ''server: can't parse issuer URL'' []), [])
      else if Config_Storage c = None
      then (None, Some (errors_New ''server: storage cannot be nil''), [])
      else (None, Some (fmt_Errorf ''unsupported response_type %q'' [ArgS t]), []))"
proof -
  have "SupportedResponseTypes c \<noteq> []"
    using assms by auto
  then show ?thesis
    using assms
    by (auto simp: newServer_def supported_loop_eq split: prod.splits option.splits)
qed

text \<open>
  Claim C6, amended. For every config that lists a response type other than \<^verbatim>\<open>code\<close>,
  \<^verbatim>\<open>id_token\<close> and \<^verbatim>\<open>token\<close>, \<^verbatim>\<open>newServer\<close> returns no server and an error, and starts
  no worker. When the issuer URL parses and the storage is not nil, the error is
  \<^verbatim>\<open>unsupported response_type %q\<close> for the first such response type of the list. The
  claim as stated promises this error for every such config; a config whose issuer URL
  does not parse or whose storage is nil is refused for that, before the response types
  are read.
\<close>

theorem C6_newServer_unsupported_response_type_amended:
  assumes "t \<in> set (SupportedResponseTypes c)"
    and "t \<notin> {''code'', ''id_token'', ''token''}"
  shows "fst (newServer env c rs) = None
    \<and> fst (snd (newServer env c rs)) \<noteq> None
    \<and> snd (snd (newServer env c rs)) = []
    \<and> (snd (url_Parse env (Issuer c)) = None \<and> Config_Storage c \<noteq> None \<longrightarrow>
         (\<exists>t'. find (\<lambda>x. x \<notin> {''code'', ''id_token'', ''token''}) (SupportedResponseTypes c)
                 = Some t'
              \<and> newServer env c rs
                 = (None, Some (fmt_Errorf ''unsupported response_type %q'' [ArgS t']), [])))"
proof -
  have "find (\<lambda>x. x \<notin> {''code'', ''id_token'', ''token''}) (SupportedResponseTypes c) \<noteq> None"
    using assms by (auto simp: find_None_iff)
  then obtain t' where
    t': "find (\<lambda>x. x \<notin> {''code'', ''id_token'', ''token''}) (SupportedResponseTypes c) = Some t'"
    by blast
  then have "find (\<lambda>x. x \<notin> {responseTypeCode, responseTypeIDToken, responseTypeToken})
             (SupportedResponseTypes c) = Some t'"
    by (simp add: responseTypeCode_def responseTypeIDToken_def responseTypeToken_def)
  from newServer_unsupported [OF this, of env rs] t' show ?thesis
    by (auto split: if_splits)
qed

text \<open>
  Claim C6 as stated fails. For a config that lists the response type \<^verbatim>\<open>bogus\<close> and
  has a nil storage, the error is \<^verbatim>\<open>server: storage cannot be nil\<close>, which does not
  name the response type.
\<close>

theorem C6_storage_nil_counterexample:
  "''bogus'' \<in> set (SupportedResponseTypes
       (example_Config\<lparr>Config_Storage := None, SupportedResponseTypes := [''code'', ''bogus'']\<rparr>))
   \<and> ''bogus'' \<notin> {''code'', ''id_token'', ''token''}
   \<and> newServer example_deps
       (example_Config\<lparr>Config_Storage := None, SupportedResponseTypes := [''code'', ''bogus'']\<rparr>)
       (defaultRotationStrategy (6 * time_Hour) (24 * time_Hour))
     = (None, Some (errors_New ''server: storage cannot be nil''), [])"
  by (simp add: example_Config_def example_deps_def newServer_def)

text \<open>
  The amended theorem for a config with a storage and the response types \<^verbatim>\<open>code\<close>,
  \<^verbatim>\<open>bogus\<close> and \<^verbatim>\<open>other\<close>: the error names \<^verbatim>\<open>bogus\<close>.
\<close>

theorem C6_newServer_unsupported_response_type_amended_witness:
  "newServer example_deps
       (example_Config\<lparr>SupportedResponseTypes := [''code'', ''bogus'', ''other'']\<rparr>)
       (defaultRotationStrategy (6 * time_Hour) (24 * time_Hour))
     = (None, Some (fmt_Errorf ''unsupported response_type %q'' [ArgS ''bogus'']), [])"
proof -
  let ?c = "example_Config\<lparr>SupportedResponseTypes := [''code'', ''bogus'', ''other'']\<rparr>"
  have 1: "''bogus'' \<in> set (SupportedResponseTypes ?c)"
    and 2: "''bogus'' \<notin> {''code'', ''id_token'', ''token''}"
    by simp_all
  have 3: "snd (url_Parse example_deps (Issuer ?c)) = None \<and> Config_Storage ?c \<noteq> None"
    by (simp add: example_Config_def example_deps_def)
  from C6_newServer_unsupported_response_type_amended
    [OF 1 2, of example_deps "defaultRotationStrategy (6 * time_Hour) (24 * time_Hour)"] 3
  show ?thesis
    by auto
qed

subsection \<open>The generic callback route\<close>

lemma Header_Del_canonical:
  assumes "CanonicalMIMEHeaderKey key = key"
  shows "Header_Del h key = h(key := None)"
  using assms by (simp add: Header_Del_def)

lemma strip_X_Remote_canonical:
  assumes "\<forall>key. h key \<noteq> None \<and> strings_HasPrefix (strings_ToLower key) ''x-remote-''
             \<longrightarrow> CanonicalMIMEHeaderKey key = key"
  shows "strip_X_Remote order h =
     (\<lambda>key. if key \<in> set order \<and> strings_HasPrefix (strings_ToLower key) ''x-remote-''
            then None else h key)"
  using assms
proof (induction order arbitrary: h)
  case Nil
  then show ?case by simp
next
  case (Cons k rest)
  let ?P = "\<lambda>key. strings_HasPrefix (strings_ToLower key) ''x-remote-''"
  show ?case
  proof (cases "h k \<noteq> None \<and> ?P k")
    case True
    then have del: "Header_Del h k = h(k := None)"
      using Cons.prems Header_Del_canonical by blast
    have canonical:
      "\<forall>key. (h(k := None)) key \<noteq> None \<and> ?P key \<longrightarrow> CanonicalMIMEHeaderKey key = key"
      using Cons.prems by simp
    have "strip_X_Remote (k # rest) h = strip_X_Remote rest (h(k := None))"
      using True del by simp
    also have "\<dots> = (\<lambda>key. if key \<in> set rest \<and> ?P key then None else (h(k := None)) key)"
      by (rule Cons.IH [OF canonical])
    also have "\<dots> = (\<lambda>key. if key \<in> set (k # rest) \<and> ?P key then None else h key)"
      using True by (auto simp: fun_eq_iff)
    finally show ?thesis .
  next
    case False
    then have "strip_X_Remote (k # rest) h = strip_X_Remote rest h"
      by auto
    also have "\<dots> = (\<lambda>key. if key \<in> set rest \<and> ?P key then None else h key)"
      by (rule Cons.IH [OF Cons.prems])
    also have "\<dots> = (\<lambda>key. if key \<in> set (k # rest) \<and> ?P key then None else h key)"
      using False by (auto simp: fun_eq_iff)
    finally show ?thesis .
  qed
qed

text \<open>
  Claim C2, amended. Let every header of the request whose name, lowered, starts with
  \<^verbatim>\<open>x-remote-\<close> be stored under a name in canonical form, the form under which the
  server of \<^verbatim>\<open>net/http\<close> stores every field of a request it reads; and let the loop
  visit every key of the map. Then the handler of the generic callback route calls
  \<^verbatim>\<open>handleConnectorCallback\<close> with the request it received in which every header whose
  name, lowered, starts with \<^verbatim>\<open>x-remote-\<close> is absent, and every other header and field
  is as it arrived. The claim as stated promises this for every request; the amended
  claim says nothing of a header stored under a name that is not in canonical form.
\<close>

theorem C2_callback_strips_X_Remote_amended:
  assumes "\<forall>key. Header r key \<noteq> None \<and> strings_HasPrefix (strings_ToLower key) ''x-remote-''
             \<longrightarrow> CanonicalMIMEHeaderKey key = key"
    and "\<forall>key. Header r key \<noteq> None \<longrightarrow> key \<in> set order"
  shows "callback_route handleConnectorCallback order w r =
     handleConnectorCallback w
       (r\<lparr>Header :=
            (\<lambda>key. if strings_HasPrefix (strings_ToLower key) ''x-remote-'' then None
                   else Header r key)\<rparr>)"
proof -
  have "strip_X_Remote order (Header r) =
     (\<lambda>key. if strings_HasPrefix (strings_ToLower key) ''x-remote-'' then None
            else Header r key)"
    using strip_X_Remote_canonical [OF assms(1), of order] assms(2)
    by (auto simp: fun_eq_iff)
  then show ?thesis
    by (simp add: callback_route_def)
qed

text \<open>
  Claim C2 as stated fails. A request passed to the server with the header
  \<^verbatim>\<open>x-remote-user\<close> stored under that name, in lower case: the name has the
  case-insensitive prefix, the loop visits it, \<^verbatim>\<open>Header.Del\<close> deletes the entry of
  \<^verbatim>\<open>X-Remote-User\<close>, of which there is none, and the handler is called with the header
  still in the request.
\<close>

theorem C2_lower_case_key_counterexample:
  "Header example_Request_lower ''x-remote-user'' = Some [''admin'']
   \<and> strings_HasPrefix (strings_ToLower ''x-remote-user'') ''x-remote-''
   \<and> CanonicalMIMEHeaderKey ''x-remote-user'' = ''X-Remote-User''
   \<and> Header (callback_route example_handler [''x-remote-user'', ''Accept''] ()
        example_Request_lower) ''x-remote-user''
     = Some [''admin'']
   \<and> Header (callback_route example_handler [''Accept'', ''x-remote-user''] ()
        example_Request_lower) ''x-remote-user''
     = Some [''admin'']"
proof -
  have canonical: "CanonicalMIMEHeaderKey ''x-remote-user'' = ''X-Remote-User''"
    by code_simp
  have prefix: "strings_HasPrefix (strings_ToLower ''x-remote-user'') ''x-remote-''"
    "\<not> strings_HasPrefix (strings_ToLower ''Accept'') ''x-remote-''"
    by code_simp+
  show ?thesis
    using canonical prefix
    by (simp add: callback_route_def example_handler_def example_Request_lower_def
        Header_Del_def)
qed

text \<open>
  The amended theorem for a request with the headers \<^verbatim>\<open>Accept\<close>, \<^verbatim>\<open>X-Remote-User\<close> and
  \<^verbatim>\<open>X-Remote-Group\<close>, and a handler that returns the request it is called with.
\<close>

theorem C2_callback_strips_X_Remote_amended_witness:
  "Header (callback_route example_handler
       [''X-Remote-Group'', ''Accept'', ''X-Remote-User''] () example_Request) ''X-Remote-User''
     = None
   \<and> Header (callback_route example_handler
       [''X-Remote-Group'', ''Accept'', ''X-Remote-User''] () example_Request) ''X-Remote-Group''
     = None
   \<and> Header (callback_route example_handler
       [''X-Remote-Group'', ''Accept'', ''X-Remote-User''] () example_Request) ''Accept''
     = Some [''text/html'']"
proof -
  have canonical: "CanonicalMIMEHeaderKey ''Accept'' = ''Accept''"
    "CanonicalMIMEHeaderKey ''X-Remote-User'' = ''X-Remote-User''"
    "CanonicalMIMEHeaderKey ''X-Remote-Group'' = ''X-Remote-Group''"
    by code_simp+
  have prefix: "\<not> strings_HasPrefix (strings_ToLower ''Accept'') ''x-remote-''"
    "strings_HasPrefix (strings_ToLower ''X-Remote-User'') ''x-remote-''"
    "strings_HasPrefix (strings_ToLower ''X-Remote-Group'') ''x-remote-''"
    by code_simp+
  have 1: "\<forall>key. Header example_Request key \<noteq> None
      \<and> strings_HasPrefix (strings_ToLower key) ''x-remote-''
      \<longrightarrow> CanonicalMIMEHeaderKey key = key"
    using canonical by (simp add: example_Request_def)
  have 2: "\<forall>key. Header example_Request key \<noteq> None \<longrightarrow>
      key \<in> set [''X-Remote-Group'', ''Accept'', ''X-Remote-User'']"
    by (simp add: example_Request_def)
  show ?thesis
    using C2_callback_strips_X_Remote_amended [OF 1 2, of example_handler "()"] prefix
    by (simp add: example_Request_def example_handler_def)
qed

text \<open>
  Canonical names are the names that \<^verbatim>\<open>CanonicalMIMEHeaderKey\<close> returns: applying it
  twice is applying it once. So the first hypothesis of the amended C2 holds of every
  map whose fields were stored under the canonical form of their names.
\<close>

lemma is_upper_not_lower: "is_upper c \<Longrightarrow> \<not> is_lower c"
  by (simp add: is_upper_def is_lower_def)

lemma to_upper_is_upper: "is_lower c \<Longrightarrow> is_upper (to_upper c)"
  by (auto simp: is_upper_def is_lower_def to_upper_def)

lemma to_lower_is_lower: "is_upper c \<Longrightarrow> is_lower (to_lower c)"
  by (auto simp: is_upper_def is_lower_def to_lower_def)

lemma canonical_loop_idem:
  "canonical_loop upper (canonical_loop upper str) = canonical_loop upper str"
proof (induction str arbitrary: upper)
  case Nil
  then show ?case by simp
next
  case (Cons c cs)
  then show ?case
    by (auto simp: Let_def dest: to_upper_is_upper to_lower_is_lower is_upper_not_lower)
qed

lemma canonical_loop_valid:
  "list_all validHeaderFieldByte str \<Longrightarrow> list_all validHeaderFieldByte (canonical_loop upper str)"
proof (induction str arbitrary: upper)
  case Nil
  then show ?case by simp
next
  case (Cons c cs)
  then show ?case
    using to_upper_is_upper [of c] to_lower_is_lower [of c]
    by (auto simp: Let_def validHeaderFieldByte_def)
qed

lemma CanonicalMIMEHeaderKey_idem:
  "CanonicalMIMEHeaderKey (CanonicalMIMEHeaderKey str) = CanonicalMIMEHeaderKey str"
  by (simp add: CanonicalMIMEHeaderKey_def canonical_loop_idem canonical_loop_valid)

end
